theory Spec2Isabelle
  imports Main
begin

section \<open>JavaScript conventions used by the handlers\<close>

text \<open>
  The backend is a set of Express handlers over a Supabase (Postgres) store. A nullable
  numeric column is an \<open>int option\<close> (\<open>None\<close> is SQL NULL); the result of
  \<open>parseInt\<close> is an \<open>int option\<close> as well (\<open>None\<close> is NaN). Timestamps are
  milliseconds since the epoch; a handler takes the instant \<open>now\<close> at which it runs.
\<close>

definition FREE_TRIALS :: int where
  "FREE_TRIALS = 3"

text \<open>\<open>x || d\<close> on a nullable number: null, NaN and 0 are falsy.\<close>

definition num_or :: "int option \<Rightarrow> int \<Rightarrow> int" where
  "num_or x d = (case x of None \<Rightarrow> d | Some n \<Rightarrow> if n = 0 then d else n)"

text \<open>A nullable number in arithmetic or in a comparison: null converts to 0.\<close>

definition to_num :: "int option \<Rightarrow> int" where
  "to_num x = (case x of None \<Rightarrow> 0 | Some n \<Rightarrow> n)"

text \<open>Truthiness of a nullable number and of a nullable string.\<close>

definition truthy_num :: "int option \<Rightarrow> bool" where
  "truthy_num x = (case x of None \<Rightarrow> False | Some n \<Rightarrow> n \<noteq> 0)"

definition truthy_str :: "string option \<Rightarrow> bool" where
  "truthy_str x = (case x of None \<Rightarrow> False | Some s \<Rightarrow> s \<noteq> [])"

text \<open>\<open>x || d\<close> on a nullable string.\<close>

definition str_or :: "string option \<Rightarrow> string \<Rightarrow> string" where
  "str_or x d = (case x of None \<Rightarrow> d | Some s \<Rightarrow> if s = [] then d else s)"

text \<open>
  \<open>trim\<close> and \<open>toUpperCase\<close> on strings of 8-bit characters: the ASCII white space
  is stripped from both ends, and the ASCII letters are upper-cased.
\<close>

definition is_space :: "char \<Rightarrow> bool" where
  "is_space c = (let n = (of_char c :: nat) in n = 32 \<or> (9 \<le> n \<and> n \<le> 13))"

definition js_trim :: "string \<Rightarrow> string" where
  "js_trim t = rev (dropWhile is_space (rev (dropWhile is_space t)))"

definition upper_char :: "char \<Rightarrow> char" where
  "upper_char c =
     (let n = (of_char c :: nat) in if 97 \<le> n \<and> n \<le> 122 then char_of (n - 32) else c)"

definition js_upper :: "string \<Rightarrow> string" where
  "js_upper t = map upper_char t"

definition DAY_MS :: int where
  "DAY_MS = 86400000"

section \<open>The store\<close>

record user =
  u_id :: string
  u_email :: string
  u_name :: string
  role :: string
  trials_total :: "int option"
  trials_used :: "int option"
  subscribed :: bool
  sub_plan :: "string option"
  sub_expires :: "int option"
  created_at :: int
  last_login :: "int option"

record coupon =
  c_id :: string
  code :: string
  active :: bool
  max_uses :: "int option"
  uses :: int
  trial_grant :: "int option"
  plan_grant :: "string option"
  expiry_date :: "int option"

record redemption =
  coupon_id :: string
  r_user_id :: string

record payment =
  p_id :: string
  user_id :: "string option"
  email :: "string option"
  plan :: string
  status :: string
  verified_at :: "int option"
  verified_by :: "string option"
  p_notes :: "string option"
  trials_granted :: "int option"

record analysis =
  a_user_id :: string
  a_email :: string
  project_title :: string

record store =
  users :: "user list"
  coupons :: "coupon list"
  coupon_redemptions :: "redemption list"
  payments :: "payment list"
  analyses :: "analysis list"

text \<open>
  \<open>.single()\<close> and \<open>.maybeSingle()\<close>: the row when exactly one row matches, and no
  data otherwise.
\<close>

definition single :: "'a list \<Rightarrow> 'a option" where
  "single rows = (case rows of [r] \<Rightarrow> Some r | _ \<Rightarrow> None)"

definition select_user :: "store \<Rightarrow> string \<Rightarrow> user option" where
  "select_user s userId = single (filter (\<lambda>u. u_id u = userId) (users s))"

text \<open>\<open>from('users').update(f).eq('id', userId)\<close>: every matching row is rewritten.\<close>

definition update_user :: "store \<Rightarrow> string \<Rightarrow> (user \<Rightarrow> user) \<Rightarrow> store" where
  "update_user s userId f =
     s\<lparr>users := map (\<lambda>u. if u_id u = userId then f u else u) (users s)\<rparr>"

definition update_user_by_email :: "store \<Rightarrow> string \<Rightarrow> (user \<Rightarrow> user) \<Rightarrow> store" where
  "update_user_by_email s em f =
     s\<lparr>users := map (\<lambda>u. if u_email u = em then f u else u) (users s)\<rparr>"

section \<open>Subscription lifecycle\<close>

text \<open>The condition of \<open>refreshUser\<close>: a monthly subscription whose expiry is in the past.\<close>

definition sub_expired :: "int \<Rightarrow> user \<Rightarrow> bool" where
  "sub_expired now u =
     (subscribed u \<and> sub_plan u = Some ''monthly'' \<and>
      (case sub_expires u of None \<Rightarrow> False | Some t \<Rightarrow> t < now))"

definition demote :: "user \<Rightarrow> user" where
  "demote u = u\<lparr>subscribed := False, sub_plan := None, sub_expires := None\<rparr>"

definition refreshUser :: "store \<Rightarrow> int \<Rightarrow> string \<Rightarrow> store \<times> user option" where
  "refreshUser s now userId =
     (case select_user s userId of
        None \<Rightarrow> (s, None)
      | Some u \<Rightarrow>
          if sub_expired now u
          then (update_user s (u_id u) demote, Some (demote u))
          else (s, Some u))"

text \<open>\<open>daysLeft\<close>: whole days until the instant, rounded up, never negative.\<close>

definition daysLeft :: "int \<Rightarrow> int option \<Rightarrow> int option" where
  "daysLeft now expires =
     (case expires of None \<Rightarrow> None
      | Some t \<Rightarrow> Some (max 0 (- ((now - t) div DAY_MS))))"

record user_view =
  v_id :: string
  v_email :: string
  v_name :: string
  v_role :: string
  v_trials_used :: int
  v_trials_total :: int
  v_trials_left :: int
  v_subscribed :: bool
  v_sub_plan :: "string option"
  v_sub_expires :: "int option"
  v_days_remaining :: "int option"
  v_created_at :: int
  v_last_login :: "int option"

definition formatUser :: "int \<Rightarrow> user \<Rightarrow> user_view" where
  "formatUser now u =
     (let total = num_or (trials_total u) FREE_TRIALS;
          used = num_or (trials_used u) 0;
          left = max 0 (total - used);
          days = (if sub_plan u = Some ''monthly'' \<and> sub_expires u \<noteq> None
                  then daysLeft now (sub_expires u) else None)
      in \<lparr>v_id = u_id u, v_email = u_email u, v_name = u_name u, v_role = role u,
          v_trials_used = used, v_trials_total = total, v_trials_left = left,
          v_subscribed = subscribed u, v_sub_plan = sub_plan u,
          v_sub_expires = sub_expires u, v_days_remaining = days,
          v_created_at = created_at u, v_last_login = last_login u\<rparr>)"

text \<open>The error answers of the handlers.\<close>

datatype error =
    UserNotFound
  | MissingText
  | TextTooShort
  | TextTooLong
  | TrialLimit int int
  | GeminiError
  | EmptyGeminiResponse
  | AnalysisFailed
  | CodeRequired
  | LoginRequired
  | CouponNotFound
  | CouponInactive
  | CouponExhausted
  | CouponExpired
  | AlreadyRedeemed
  | RedeemFailed
  | NameRequired
  | UnknownAction
  | UpdateFailed
  | PaymentNotFound
  | AlreadyVerified

text \<open>\<open>GET /api/users/:id/status\<close>.\<close>

definition get_user_status :: "store \<Rightarrow> int \<Rightarrow> string \<Rightarrow> store \<times> (error + user_view)" where
  "get_user_status s now userId =
     (case refreshUser s now userId of
        (s', None) \<Rightarrow> (s', Inl UserNotFound)
      | (s', Some u) \<Rightarrow> (s', Inr (formatUser now u)))"

section \<open>Analysis: entitlement gate and trial consumption\<close>

text \<open>
  What the call to the language model can come to. \<open>FetchThrows\<close>: the request itself
  fails; \<open>NotOk\<close>: a response with \<open>!gr.ok\<close>; \<open>EmptyText\<close>: no text part;
  \<open>Unparsable\<close>: \<open>parseGeminiJSON\<close> throws; \<open>ParsedNull\<close>: the text is the JSON
  value \<open>null\<close>, so that reading \<open>parsed.projectTitle\<close> throws; \<open>Parsed t\<close>: any other
  JSON value, with its \<open>projectTitle\<close>.
\<close>

datatype gemini = FetchThrows | NotOk | EmptyText | Unparsable | ParsedNull | Parsed "string option"

text \<open>The gate of \<open>POST /api/analyze\<close> on the refreshed snapshot \<open>ur\<close>.\<close>

definition analyze_gate :: "user option \<Rightarrow> error option" where
  "analyze_gate ur =
     (case ur of
        None \<Rightarrow> None
      | Some u \<Rightarrow>
          if role u \<noteq> ''admin'' \<and> \<not> subscribed u
          then (let total = num_or (trials_total u) FREE_TRIALS
                in if to_num (trials_used u) \<ge> total
                   then Some (TrialLimit (to_num (trials_used u)) total)
                   else None)
          else None)"

text \<open>The metering write: an absolute write of the snapshot's count plus one.\<close>

definition consume :: "store \<Rightarrow> string \<Rightarrow> user \<Rightarrow> store" where
  "consume s userId ur =
     (if role ur \<noteq> ''admin'' \<and> \<not> subscribed ur
      then update_user s userId (\<lambda>u. u\<lparr>trials_used := Some (to_num (trials_used ur) + 1)\<rparr>)
      else s)"

definition log_analysis :: "store \<Rightarrow> string \<Rightarrow> user \<Rightarrow> string option \<Rightarrow> store" where
  "log_analysis s userId ur title =
     s\<lparr>analyses := analyses s @
          [\<lparr>a_user_id = userId, a_email = u_email ur, project_title = str_or title ''Unknown''\<rparr>]\<rparr>"

definition post_analyze ::
  "store \<Rightarrow> int \<Rightarrow> string option \<Rightarrow> string option \<Rightarrow> gemini \<Rightarrow> store \<times> (error + string)" where
  "post_analyze s now text userId g =
     (case text of
        None \<Rightarrow> (s, Inl MissingText)
      | Some t \<Rightarrow>
          if t = [] then (s, Inl MissingText)
          else if length (js_trim t) < 60 then (s, Inl TextTooShort)
          else if length t > 15000 then (s, Inl TextTooLong)
          else
            (case (case userId of
                     None \<Rightarrow> (s, None)
                   | Some uid \<Rightarrow> if uid = [] then (s, None) else refreshUser s now uid) of
               (s1, ur) \<Rightarrow>
                 (case analyze_gate ur of
                    Some e \<Rightarrow> (s1, Inl e)
                  | None \<Rightarrow>
                      (case g of
                         FetchThrows \<Rightarrow> (s1, Inl AnalysisFailed)
                       | NotOk \<Rightarrow> (s1, Inl GeminiError)
                       | EmptyText \<Rightarrow> (s1, Inl EmptyGeminiResponse)
                       | Unparsable \<Rightarrow> (s1, Inl AnalysisFailed)
                       | ParsedNull \<Rightarrow>
                           (case (userId, ur) of
                              (Some uid, Some u) \<Rightarrow> (consume s1 uid u, Inl AnalysisFailed)
                            | _ \<Rightarrow> (s1, Inl AnalysisFailed))
                       | Parsed title \<Rightarrow>
                           (case (userId, ur) of
                              (Some uid, Some u) \<Rightarrow>
                                (log_analysis (consume s1 uid u) uid u title,
                                 Inr (str_or title ''Your Project''))
                            | _ \<Rightarrow> (s1, Inr (str_or title ''Your Project'')))))))"

text \<open>
  The third backend revision has the check as a function of its own, over a user row
  that carries \<open>extra_trials\<close> instead of \<open>trials_total\<close>; its free quota is configurable.
\<close>

record user_v3 =
  role_v3 :: string
  subscribed_v3 :: bool
  sub_expires_v3 :: "int option"
  trials_used_v3 :: "int option"
  extra_trials :: "int option"

definition totalTrialsAllowed :: "int \<Rightarrow> user_v3 \<Rightarrow> int" where
  "totalTrialsAllowed free u = free + num_or (extra_trials u) 0"

definition userCanAnalyze :: "int \<Rightarrow> int \<Rightarrow> user_v3 option \<Rightarrow> bool" where
  "userCanAnalyze free now ou =
     (case ou of
        None \<Rightarrow> False
      | Some u \<Rightarrow>
          if role_v3 u = ''admin'' then True
          else if subscribed_v3 u
          then (case sub_expires_v3 u of None \<Rightarrow> True | Some t \<Rightarrow> t > now)
          else num_or (trials_used_v3 u) 0 < totalTrialsAllowed free u)"

section \<open>Coupon redemption\<close>

text \<open>
  A write to the store either is applied, or comes back with an error object that the
  handler does not look at (\<open>Errored\<close>: nothing is written and the handler goes on), or
  rejects (\<open>Thrown\<close>: nothing is written and the handler's \<open>catch\<close> answers).
\<close>

datatype outcome = Applied | Errored | Thrown

definition attempt :: "outcome \<Rightarrow> (store \<Rightarrow> store) \<Rightarrow> store \<Rightarrow> store option" where
  "attempt w f s = (case w of Applied \<Rightarrow> Some (f s) | Errored \<Rightarrow> Some s | Thrown \<Rightarrow> None)"

definition select_coupon :: "store \<Rightarrow> string \<Rightarrow> coupon option" where
  "select_coupon s c = single (filter (\<lambda>cp. code cp = c) (coupons s))"

definition update_coupon :: "string \<Rightarrow> (coupon \<Rightarrow> coupon) \<Rightarrow> store \<Rightarrow> store" where
  "update_coupon cid f s =
     s\<lparr>coupons := map (\<lambda>cp. if c_id cp = cid then f cp else cp) (coupons s)\<rparr>"

definition select_redemption :: "store \<Rightarrow> string \<Rightarrow> string \<Rightarrow> redemption option" where
  "select_redemption s cid userId =
     single (filter (\<lambda>r. coupon_id r = cid \<and> r_user_id r = userId) (coupon_redemptions s))"

definition insert_redemption :: "string \<Rightarrow> string \<Rightarrow> store \<Rightarrow> store" where
  "insert_redemption cid userId s =
     s\<lparr>coupon_redemptions :=
          coupon_redemptions s @ [\<lparr>coupon_id = cid, r_user_id = userId\<rparr>]\<rparr>"

text \<open>The coupon row written by a redemption: the count and the flag in one update.\<close>

definition use_coupon :: "coupon \<Rightarrow> coupon \<Rightarrow> coupon" where
  "use_coupon cp row =
     row\<lparr>uses := uses cp + 1,
         active := (if truthy_num (max_uses cp) \<and> uses cp + 1 \<ge> to_num (max_uses cp)
                    then False else active cp)\<rparr>"

text \<open>The grant of a coupon, as the update of the user row; \<open>s\<close> is the store it reads.\<close>

definition coupon_grant :: "store \<Rightarrow> int \<Rightarrow> coupon \<Rightarrow> string \<Rightarrow> user \<Rightarrow> user" where
  "coupon_grant s now cp userId =
     (let tg = num_or (trial_grant cp) 0
      in if tg > 0
         then (let base = (case select_user s userId of
                             None \<Rightarrow> FREE_TRIALS
                           | Some u \<Rightarrow> num_or (trials_total u) FREE_TRIALS)
               in (\<lambda>row. row\<lparr>trials_total := Some (base + tg)\<rparr>))
         else (let exp = (if plan_grant cp = Some ''monthly''
                          then Some (now + 30 * DAY_MS) else None)
               in (\<lambda>row. row\<lparr>subscribed := True,
                               sub_plan := Some (str_or (plan_grant cp) ''one_time''),
                               sub_expires := exp\<rparr>)))"

text \<open>
  \<open>POST /api/coupons/redeem\<close> of the current backend; \<open>w1\<close>, \<open>w2\<close>, \<open>w3\<close> are what
  becomes of its three writes (coupon, user, redemption row), in this order.
\<close>

definition redeem_with ::
  "outcome \<Rightarrow> outcome \<Rightarrow> outcome \<Rightarrow> store \<Rightarrow> int \<Rightarrow> string option \<Rightarrow> string option
     \<Rightarrow> store \<times> (error + string \<times> int)" where
  "redeem_with w1 w2 w3 s now code_in userId_in =
     (case code_in of
        None \<Rightarrow> (s, Inl CodeRequired)
      | Some c \<Rightarrow>
     if c = [] then (s, Inl CodeRequired) else
     (case userId_in of
        None \<Rightarrow> (s, Inl LoginRequired)
      | Some userId \<Rightarrow>
     if userId = [] then (s, Inl LoginRequired) else
     (case select_coupon s (js_upper (js_trim c)) of
        None \<Rightarrow> (s, Inl CouponNotFound)
      | Some cp \<Rightarrow>
     if \<not> active cp then (s, Inl CouponInactive)
     else if truthy_num (max_uses cp) \<and> uses cp \<ge> to_num (max_uses cp)
     then (s, Inl CouponExhausted)
     else if (case expiry_date cp of None \<Rightarrow> False | Some t \<Rightarrow> t < now)
     then (s, Inl CouponExpired)
     else if select_redemption s (c_id cp) userId \<noteq> None then (s, Inl AlreadyRedeemed)
     else
     (case attempt w1 (update_coupon (c_id cp) (use_coupon cp)) s of
        None \<Rightarrow> (s, Inl RedeemFailed)
      | Some s1 \<Rightarrow>
     (case attempt w2 (\<lambda>st. update_user st userId (coupon_grant s1 now cp userId)) s1 of
        None \<Rightarrow> (s1, Inl RedeemFailed)
      | Some s2 \<Rightarrow>
     (case attempt w3 (insert_redemption (c_id cp) userId) s2 of
        None \<Rightarrow> (s2, Inl RedeemFailed)
      | Some s3 \<Rightarrow>
          (s3, Inr (if num_or (trial_grant cp) 0 > 0 then ''trials'' else ''unlimited'',
                    num_or (trial_grant cp) 0))))))))"

definition post_coupons_redeem ::
  "store \<Rightarrow> int \<Rightarrow> string option \<Rightarrow> string option \<Rightarrow> store \<times> (error + string \<times> int)" where
  "post_coupons_redeem = redeem_with Applied Applied Applied"

section \<open>Admin actions on a user\<close>

text \<open>
  The body of \<open>PUT /api/admin/users/:id\<close>; the numeric fields are given as
  \<open>parseInt\<close> reads them.
\<close>

record admin_update =
  action :: string
  daysToGrant :: "int option"
  trialsToAdd :: "int option"
  trialsTotal :: "int option"
  name :: "string option"

definition admin_updates :: "int \<Rightarrow> user \<Rightarrow> admin_update \<Rightarrow> error + (user \<Rightarrow> user)" where
  "admin_updates now u req =
     (if action req = ''grant_monthly''
      then (let d = max 1 (num_or (daysToGrant req) 30)
            in Inr (\<lambda>row. row\<lparr>subscribed := True, sub_plan := Some ''monthly'',
                               sub_expires := Some (now + d * DAY_MS)\<rparr>))
      else if action req = ''grant_one_time''
      then Inr (\<lambda>row. row\<lparr>subscribed := True, sub_plan := Some ''one_time'',
                            sub_expires := None\<rparr>)
      else if action req = ''add_trials''
      then Inr (\<lambda>row. row\<lparr>trials_total :=
                  Some (num_or (trials_total u) FREE_TRIALS + max 1 (num_or (trialsToAdd req) 1))\<rparr>)
      else if action req = ''set_trials''
      then Inr (\<lambda>row. row\<lparr>trials_total := Some (max 0 (num_or (trialsTotal req) FREE_TRIALS)),
                            trials_used := Some 0\<rparr>)
      else if action req = ''reset_used''
      then Inr (\<lambda>row. row\<lparr>trials_used := Some 0\<rparr>)
      else if action req = ''revoke_all''
      then Inr (\<lambda>row. row\<lparr>subscribed := False, sub_plan := None, sub_expires := None,
                            trials_total := Some FREE_TRIALS, trials_used := Some 0\<rparr>)
      else if action req = ''update_name''
      then (case name req of
              None \<Rightarrow> Inl NameRequired
            | Some n \<Rightarrow>
                if n = [] \<or> js_trim n = [] then Inl NameRequired
                else Inr (\<lambda>row. row\<lparr>u_name := js_trim n\<rparr>))
      else Inl UnknownAction)"

definition put_admin_user ::
  "store \<Rightarrow> int \<Rightarrow> string \<Rightarrow> admin_update \<Rightarrow> store \<times> (error + user_view)" where
  "put_admin_user s now userId req =
     (case refreshUser s now userId of
        (s1, None) \<Rightarrow> (s1, Inl UserNotFound)
      | (s1, Some u) \<Rightarrow>
          (case admin_updates now u req of
             Inl e \<Rightarrow> (s1, Inl e)
           | Inr f \<Rightarrow>
               (case refreshUser (update_user s1 userId f) now userId of
                  (s3, None) \<Rightarrow> (s3, Inl UpdateFailed)
                | (s3, Some u') \<Rightarrow> (s3, Inr (formatUser now u')))))"

section \<open>Payment verification\<close>

definition ADMIN_EMAIL :: string where
  "ADMIN_EMAIL = ''saikiranjinde49@gmail.com''"

text \<open>The value of a nullable string where it is truthy.\<close>

definition nonempty :: "string option \<Rightarrow> string option" where
  "nonempty x = (case x of None \<Rightarrow> None | Some t \<Rightarrow> if t = [] then None else Some t)"

definition select_payment :: "store \<Rightarrow> string \<Rightarrow> payment option" where
  "select_payment s pid = single (filter (\<lambda>p. p_id p = pid) (payments s))"

definition update_payment :: "string \<Rightarrow> (payment \<Rightarrow> payment) \<Rightarrow> store \<Rightarrow> store" where
  "update_payment pid f s =
     s\<lparr>payments := map (\<lambda>p. if p_id p = pid then f p else p) (payments s)\<rparr>"

definition select_user_by_email :: "store \<Rightarrow> string \<Rightarrow> user option" where
  "select_user_by_email s em = single (filter (\<lambda>u. u_email u = em) (users s))"

definition mark_verified :: "int \<Rightarrow> string option \<Rightarrow> int \<Rightarrow> payment \<Rightarrow> payment \<Rightarrow> payment" where
  "mark_verified now notes nt pay row =
     row\<lparr>status := ''verified'', verified_at := Some now, verified_by := Some ADMIN_EMAIL,
         p_notes := nonempty notes,
         trials_granted := (if plan pay = ''99'' then None else Some nt)\<rparr>"

definition grant_monthly_30 :: "int \<Rightarrow> user \<Rightarrow> user" where
  "grant_monthly_30 now row =
     row\<lparr>subscribed := True, sub_plan := Some ''monthly'',
         sub_expires := Some (now + 30 * DAY_MS)\<rparr>"

definition post_admin_payment_verify ::
  "store \<Rightarrow> int \<Rightarrow> string \<Rightarrow> string option \<Rightarrow> int option \<Rightarrow> store \<times> (error + string)" where
  "post_admin_payment_verify s now pid notes trialsToGrant =
     (case select_payment s pid of
        None \<Rightarrow> (s, Inl PaymentNotFound)
      | Some pay \<Rightarrow>
          if status pay = ''verified'' then (s, Inl AlreadyVerified)
          else
            (let nt = max 1 (num_or trialsToGrant 1);
                 s1 = update_payment (p_id pay) (mark_verified now notes nt pay) s
             in if plan pay = ''99''
                then
                  ((case nonempty (user_id pay) of
                      Some uid \<Rightarrow> update_user s1 uid (grant_monthly_30 now)
                    | None \<Rightarrow>
                        (case nonempty (email pay) of
                           Some em \<Rightarrow> update_user_by_email s1 em (grant_monthly_30 now)
                         | None \<Rightarrow> s1)),
                   Inr ''Verified and access granted.'')
                else
                  (case (case nonempty (user_id pay) of
                           Some uid \<Rightarrow>
                             (Some uid,
                              (case select_user s1 uid of
                                 None \<Rightarrow> FREE_TRIALS
                               | Some u \<Rightarrow> num_or (trials_total u) FREE_TRIALS))
                         | None \<Rightarrow>
                             (case nonempty (email pay) of
                                Some em \<Rightarrow>
                                  (case select_user_by_email s1 em of
                                     Some u \<Rightarrow>
                                       (nonempty (Some (u_id u)),
                                        num_or (trials_total u) FREE_TRIALS)
                                   | None \<Rightarrow> (None, FREE_TRIALS))
                              | None \<Rightarrow> (None, FREE_TRIALS))) of
                     (uid, cur) \<Rightarrow>
                       ((case uid of
                           Some i \<Rightarrow>
                             update_user s1 i (\<lambda>row. row\<lparr>trials_total := Some (cur + nt)\<rparr>)
                         | None \<Rightarrow>
                             (case nonempty (email pay) of
                                Some em \<Rightarrow>
                                  update_user_by_email s1 em
                                    (\<lambda>row. row\<lparr>trials_total := Some (cur + nt)\<rparr>)
                              | None \<Rightarrow> s1)),
                        Inr ''Verified and access granted.''))))"

section \<open>Coupon redemption in the second backend revision\<close>

text \<open>
  The second revision finds the coupon with \<open>ilike\<close>: a case-insensitive match in which
  \<open>%\<close> stands for any run of characters and \<open>_\<close> for any one character (escape
  characters in the pattern are not modelled).
\<close>

fun like_match :: "string \<Rightarrow> string \<Rightarrow> bool" where
  "like_match [] t = (t = [])"
| "like_match (p # ps) [] = (p = CHR ''%'' \<and> like_match ps [])"
| "like_match (p # ps) (c # t) =
     (if p = CHR ''%'' then like_match ps (c # t) \<or> like_match (p # ps) t
      else (p = CHR ''_'' \<or> upper_char p = upper_char c) \<and> like_match ps t)"

definition select_coupon_ilike :: "store \<Rightarrow> string \<Rightarrow> coupon option" where
  "select_coupon_ilike s pat = single (filter (\<lambda>cp. like_match pat (code cp)) (coupons s))"

definition use_coupon_v2 :: "coupon \<Rightarrow> coupon \<Rightarrow> coupon" where
  "use_coupon_v2 cp row =
     row\<lparr>uses := uses cp + 1,
         active := (if uses cp + 1 \<ge> to_num (max_uses cp) then False else active cp)\<rparr>"

definition coupon_grant_v2 :: "int \<Rightarrow> coupon \<Rightarrow> user \<Rightarrow> user" where
  "coupon_grant_v2 now cp row =
     row\<lparr>subscribed := True, sub_plan := plan_grant cp,
         sub_expires := (if plan_grant cp = Some ''monthly''
                         then Some (now + 30 * DAY_MS) else None)\<rparr>"

definition post_coupons_redeem_v2 ::
  "store \<Rightarrow> int \<Rightarrow> string option \<Rightarrow> string option \<Rightarrow> store \<times> (error + string option)" where
  "post_coupons_redeem_v2 s now code_in userId_in =
     (case nonempty code_in of
        None \<Rightarrow> (s, Inl CodeRequired)
      | Some c \<Rightarrow>
          (case select_coupon_ilike s (js_trim c) of
             None \<Rightarrow> (s, Inl CouponNotFound)
           | Some cp \<Rightarrow>
               if \<not> active cp then (s, Inl CouponInactive)
               else if uses cp \<ge> to_num (max_uses cp) then (s, Inl CouponExhausted)
               else
                 (case nonempty userId_in of
                    None \<Rightarrow>
                      (update_coupon (c_id cp) (use_coupon_v2 cp) s, Inr (plan_grant cp))
                  | Some userId \<Rightarrow>
                      if select_redemption s (c_id cp) userId \<noteq> None
                      then (s, Inl AlreadyRedeemed)
                      else
                        (insert_redemption (c_id cp) userId
                           (update_user (update_coupon (c_id cp) (use_coupon_v2 cp) s) userId
                              (coupon_grant_v2 now cp)),
                         Inr (plan_grant cp)))))"

section \<open>Scenarios\<close>

definition student :: user where
  "student = \<lparr>u_id = ''u1'', u_email = ''asha@example.com'', u_name = ''Asha'',
     role = ''student'', trials_total = Some 3, trials_used = Some 0, subscribed = False,
     sub_plan = None, sub_expires = None, created_at = 0, last_login = None\<rparr>"

text \<open>A monthly subscriber whose subscription ran out at the instant 9000.\<close>

definition lapsed :: user where
  "lapsed = student\<lparr>subscribed := True, sub_plan := Some ''monthly'', sub_expires := Some 9000\<rparr>"

definition store_of :: "user list \<Rightarrow> store" where
  "store_of us = \<lparr>users = us, coupons = [], coupon_redemptions = [], payments = [], analyses = []\<rparr>"

definition sample_text :: string where
  "sample_text = replicate 60 (CHR ''a'')"

text \<open>A student whose stored quota is 0, with one trial used.\<close>

definition zero_quota :: user where
  "zero_quota = student\<lparr>trials_total := Some 0, trials_used := Some 1\<rparr>"

text \<open>A student who has used all three trials.\<close>

definition spent :: user where
  "spent = student\<lparr>trials_used := Some 3\<rparr>"

definition set_trials_to :: "int option \<Rightarrow> admin_update" where
  "set_trials_to n = \<lparr>action = ''set_trials'', daysToGrant = None, trialsToAdd = None,
     trialsTotal = n, name = None\<rparr>"

definition add_trials_of :: "int option \<Rightarrow> admin_update" where
  "add_trials_of n = \<lparr>action = ''add_trials'', daysToGrant = None, trialsToAdd = n,
     trialsTotal = None, name = None\<rparr>"

text \<open>A store with two students and a coupon for two trials that can be used once.\<close>

definition coupon_B :: coupon where
  "coupon_B = \<lparr>c_id = ''c1'', code = ''VS-ABC12345'', active = True, max_uses = Some 1,
     uses = 0, trial_grant = Some 2, plan_grant = Some ''trials'', expiry_date = None\<rparr>"

definition friend :: user where
  "friend = student\<lparr>u_id := ''u2'', u_email := ''ravi@example.com'', u_name := ''Ravi''\<rparr>"

definition shop :: store where
  "shop = \<lparr>users = [student, friend], coupons = [coupon_B], coupon_redemptions = [],
     payments = [], analyses = []\<rparr>"

definition shop_after :: store where
  "shop_after = \<lparr>users = [student\<lparr>trials_total := Some 5\<rparr>, friend],
     coupons = [coupon_B\<lparr>uses := 1, active := False\<rparr>],
     coupon_redemptions = [\<lparr>coupon_id = ''c1'', r_user_id = ''u1''\<rparr>],
     payments = [], analyses = []\<rparr>"

text \<open>The used-up coupon after an admin has switched it on again.\<close>

definition shop_reopened :: store where
  "shop_reopened = shop_after\<lparr>coupons := [coupon_B\<lparr>uses := 1\<rparr>]\<rparr>"

text \<open>A pending payment of plan 10 by the user \<open>u1\<close>, and a store with one user and one payment.\<close>

definition pay10 :: payment where
  "pay10 = \<lparr>p_id = ''p1'', user_id = Some ''u1'', email = Some ''asha@example.com'',
     plan = ''10'', status = ''pending'', verified_at = None, verified_by = None,
     p_notes = None, trials_granted = None\<rparr>"

definition till :: "user \<Rightarrow> payment \<Rightarrow> store" where
  "till u p = \<lparr>users = [u], coupons = [], coupon_redemptions = [], payments = [p],
     analyses = []\<rparr>"

text \<open>The same payment for plan 99, without a user id, and already verified.\<close>

definition pay99 :: payment where
  "pay99 = pay10\<lparr>plan := ''99''\<rparr>"

definition pay_by_email :: payment where
  "pay_by_email = pay10\<lparr>user_id := None\<rparr>"

definition pay_done :: payment where
  "pay_done = pay10\<lparr>status := ''verified''\<rparr>"

text \<open>A store of the second revision with a coupon for a monthly subscription.\<close>

definition coupon_M :: coupon where
  "coupon_M = \<lparr>c_id = ''c2'', code = ''EXAM2026'', active = True, max_uses = Some 1,
     uses = 0, trial_grant = None, plan_grant = Some ''monthly'', expiry_date = None\<rparr>"

definition shop_v2 :: store where
  "shop_v2 = \<lparr>users = [student], coupons = [coupon_M], coupon_redemptions = [],
     payments = [], analyses = []\<rparr>"

section \<open>Lemmas on the store operations\<close>

lemma filter_id_map_upd:
  assumes "\<And>u. u_id (f u) = u_id u"
  shows "filter (\<lambda>u. u_id u = k) (map (\<lambda>u. if u_id u = uid then f u else u) xs)
         = map (\<lambda>u. if u_id u = uid then f u else u) (filter (\<lambda>u. u_id u = k) xs)"
  using assms by (induction xs) auto

lemma single_map: "single (map g xs) = map_option g (single xs)"
  by (cases xs rule: list.exhaust[case_product list.exhaust]) (auto simp: single_def split: list.splits)

lemma single_filter_Some:
  "single (filter P xs) = Some x \<Longrightarrow> P x \<and> x \<in> set xs"
proof -
  assume "single (filter P xs) = Some x"
  then have "filter P xs = [x]"
    by (auto simp: single_def split: list.splits)
  then have "x \<in> set (filter P xs)" by simp
  then show ?thesis by simp
qed

lemma select_user_id: "select_user s k = Some u \<Longrightarrow> u_id u = k"
  unfolding select_user_def by (drule single_filter_Some) simp

lemma select_user_update:
  assumes "\<And>u. u_id (f u) = u_id u"
  shows "select_user (update_user s uid f) k
         = (if k = uid then map_option f (select_user s k) else select_user s k)"
proof -
  have "select_user (update_user s uid f) k
        = map_option (\<lambda>u. if u_id u = uid then f u else u) (select_user s k)"
    by (simp add: select_user_def update_user_def filter_id_map_upd[OF assms] single_map)
  also have "\<dots> = (if k = uid then map_option f (select_user s k) else select_user s k)"
    by (cases "select_user s k") (auto dest: select_user_id)
  finally show ?thesis .
qed

lemma demote_id [simp]: "u_id (demote u) = u_id u"
  by (simp add: demote_def)

lemma not_expired_demote [simp]: "\<not> sub_expired now (demote u)"
  by (simp add: sub_expired_def demote_def)

lemma sub_expired_iff:
  "sub_expired now u \<longleftrightarrow>
     subscribed u \<and> sub_plan u = Some ''monthly'' \<and> (\<exists>t. sub_expires u = Some t \<and> t < now)"
  by (auto simp: sub_expired_def split: option.splits)

lemma refreshUser_found:
  assumes "select_user s userId = Some u"
  shows "refreshUser s now userId =
          (if sub_expired now u then (update_user s userId demote, Some (demote u)) else (s, Some u))"
  using assms select_user_id[OF assms] by (simp add: refreshUser_def)

lemma refreshUser_persisted:
  "select_user (fst (refreshUser s now userId)) userId = snd (refreshUser s now userId)"
  by (cases "select_user s userId")
     (auto simp: refreshUser_def select_user_update dest: select_user_id)

lemma refreshUser_again:
  assumes "refreshUser s now userId = (s1, r1)"
  shows "refreshUser s1 now userId = (s1, r1)"
proof (cases "select_user s userId")
  case None
  with assms show ?thesis by (auto simp: refreshUser_def)
next
  case (Some u)
  note f = refreshUser_found[OF Some, of now]
  show ?thesis
  proof (cases "sub_expired now u")
    case True
    with assms f have s1: "s1 = update_user s userId demote" and r1: "r1 = Some (demote u)"
      by simp_all
    have "select_user s1 userId = Some (demote u)"
      by (simp add: s1 select_user_update Some)
    then show ?thesis
      by (simp add: refreshUser_found r1)
  next
    case False
    with assms f have "s1 = s" "r1 = Some u" by simp_all
    with False f show ?thesis by simp
  qed
qed

lemma refreshUser_later:
  "now \<le> now' \<Longrightarrow> refreshUser (fst (refreshUser s now userId)) now' userId = refreshUser s now' userId"
  by (cases "select_user s userId")
     (auto simp: refreshUser_def select_user_update sub_expired_def demote_def dest: select_user_id split: option.splits)

section \<open>The scenarios, evaluated\<close>

lemma lapsed_row:
  "select_user (store_of [lapsed]) ''u1'' = Some lapsed \<and> subscribed lapsed \<and>
   sub_plan lapsed = Some ''monthly'' \<and> (\<exists>t. sub_expires lapsed = Some t \<and> t < 10000)"
  by (simp add: select_user_def store_of_def single_def lapsed_def student_def)

lemma lapsed_refresh:
  "refreshUser (store_of [lapsed]) 10000 ''u1'' = (store_of [student], Some student)"
  by (simp add: refreshUser_def select_user_def store_of_def single_def lapsed_def
      student_def sub_expired_def update_user_def demote_def)

lemma student_refresh:
  "refreshUser (store_of [student]) 0 ''u1'' = (store_of [student], Some student)"
  by (simp add: refreshUser_def select_user_def store_of_def single_def
      student_def sub_expired_def)

lemma student_gate: "analyze_gate (Some student) = None"
  by (simp add: analyze_gate_def student_def num_or_def to_num_def FREE_TRIALS_def)

lemma sample_text_ok: "60 \<le> length (js_trim sample_text) \<and> length sample_text \<le> 15000"
  unfolding sample_text_def by code_simp

lemma zero_quota_refresh:
  "refreshUser (store_of [zero_quota]) 0 ''u1'' = (store_of [zero_quota], Some zero_quota)"
  by (simp add: refreshUser_def select_user_def store_of_def single_def zero_quota_def
      student_def sub_expired_def)

lemma zero_quota_fields:
  "role zero_quota = ''student'' \<and> \<not> subscribed zero_quota \<and>
   trials_total zero_quota = Some 0 \<and> trials_used zero_quota = Some 1"
  by (simp add: zero_quota_def student_def)

lemma nobody_row: "select_user (store_of [lapsed]) ''nobody'' = None"
  by (simp add: select_user_def store_of_def single_def lapsed_def student_def)

lemma student_row:
  "select_user (store_of [student]) ''u1'' = Some student \<and>
   \<not> (subscribed student \<and> sub_plan student = Some ''monthly'' \<and>
        (\<exists>t. sub_expires student = Some t \<and> t < 10000))"
  by (simp add: select_user_def store_of_def single_def student_def)

lemma spent_refresh:
  "refreshUser (store_of [spent]) 0 ''u1'' = (store_of [spent], Some spent)"
  by (simp add: refreshUser_def select_user_def store_of_def single_def spent_def
      student_def sub_expired_def)

lemma spent_fields:
  "role spent = ''student'' \<and> \<not> subscribed spent \<and> trials_total spent = Some 3 \<and>
   trials_used spent = Some 3"
  by (simp add: spent_def student_def)

lemma till_rows:
  "select_payment (till student p) (p_id p) = Some p"
  "select_user (till student p) ''u1'' = Some student"
  "select_user_by_email (till student p) ''asha@example.com'' = Some student"
  by (simp_all add: select_payment_def select_user_def select_user_by_email_def single_def
      till_def student_def)

section \<open>Subscription lifecycle\<close>

text \<open>
  C6. \<open>refreshUser\<close> on a user that is subscribed on the monthly plan with an expiry
  strictly in the past returns the row with the subscription cleared, and the stored row
  is that snapshot (so the next status read shows the user unsubscribed); on any other
  user it returns the stored row and leaves the store as it is, and on a missing user it
  returns nothing. Running it again at the same instant changes neither the store nor
  the result.
\<close>

theorem refreshUser_normalizes:
  "(select_user s userId = None \<longrightarrow> refreshUser s now userId = (s, None)) \<and>
   (select_user s userId = Some u \<and> subscribed u \<and> sub_plan u = Some ''monthly'' \<and>
      (\<exists>t. sub_expires u = Some t \<and> t < now) \<longrightarrow>
        snd (refreshUser s now userId)
          = Some (u\<lparr>subscribed := False, sub_plan := None, sub_expires := None\<rparr>) \<and>
        select_user (fst (refreshUser s now userId)) userId
          = Some (u\<lparr>subscribed := False, sub_plan := None, sub_expires := None\<rparr>) \<and>
        fst (refreshUser s now userId)
          = update_user s userId
              (\<lambda>r. r\<lparr>subscribed := False, sub_plan := None, sub_expires := None\<rparr>) \<and>
        (\<exists>v. snd (get_user_status s now userId) = Inr v \<and> \<not> v_subscribed v
               \<and> v_sub_plan v = None \<and> v_sub_expires v = None)) \<and>
   (select_user s userId = Some u \<and>
      \<not> (subscribed u \<and> sub_plan u = Some ''monthly'' \<and>
           (\<exists>t. sub_expires u = Some t \<and> t < now)) \<longrightarrow>
        refreshUser s now userId = (s, Some u)) \<and>
   (\<forall>s1 r1. refreshUser s now userId = (s1, r1) \<longrightarrow> refreshUser s1 now userId = (s1, r1))"
proof (intro conjI impI allI)
  assume "select_user s userId = None"
  then show "refreshUser s now userId = (s, None)"
    by (simp add: refreshUser_def)
next
  assume a: "select_user s userId = Some u \<and> subscribed u \<and> sub_plan u = Some ''monthly'' \<and>
      (\<exists>t. sub_expires u = Some t \<and> t < now)"
  then have e: "sub_expired now u" and f: "select_user s userId = Some u"
    by (simp_all add: sub_expired_iff)
  have d: "demote = (\<lambda>r. r\<lparr>subscribed := False, sub_plan := None, sub_expires := None\<rparr>)"
    by (rule ext) (simp add: demote_def)
  show r: "snd (refreshUser s now userId)
          = Some (u\<lparr>subscribed := False, sub_plan := None, sub_expires := None\<rparr>)"
    using e by (simp add: refreshUser_found[OF f] demote_def)
  show "select_user (fst (refreshUser s now userId)) userId
          = Some (u\<lparr>subscribed := False, sub_plan := None, sub_expires := None\<rparr>)"
    using r by (simp add: refreshUser_persisted)
  show "fst (refreshUser s now userId)
          = update_user s userId
              (\<lambda>r. r\<lparr>subscribed := False, sub_plan := None, sub_expires := None\<rparr>)"
    using e by (simp add: refreshUser_found[OF f] d)
  show "\<exists>v. snd (get_user_status s now userId) = Inr v \<and> \<not> v_subscribed v
               \<and> v_sub_plan v = None \<and> v_sub_expires v = None"
    using e by (simp add: get_user_status_def refreshUser_found[OF f] demote_def formatUser_def Let_def)
next
  assume "select_user s userId = Some u \<and>
      \<not> (subscribed u \<and> sub_plan u = Some ''monthly'' \<and>
           (\<exists>t. sub_expires u = Some t \<and> t < now))"
  then have e: "\<not> sub_expired now u" and f: "select_user s userId = Some u"
    by (simp_all add: sub_expired_iff)
  then show "refreshUser s now userId = (s, Some u)"
    by (simp add: refreshUser_found[OF f])
next
  fix s1 r1
  assume "refreshUser s now userId = (s1, r1)"
  then show "refreshUser s1 now userId = (s1, r1)"
    by (rule refreshUser_again)
qed

theorem refreshUser_normalizes_witness:
  "select_user (store_of [lapsed]) ''u1'' = Some lapsed \<and> subscribed lapsed \<and>
   sub_plan lapsed = Some ''monthly'' \<and> (\<exists>t. sub_expires lapsed = Some t \<and> t < 10000) \<and>
   snd (refreshUser (store_of [lapsed]) 10000 ''u1'')
     = Some (lapsed\<lparr>subscribed := False, sub_plan := None, sub_expires := None\<rparr>) \<and>
   select_user (store_of [lapsed]) ''nobody'' = None \<and>
   refreshUser (store_of [lapsed]) 10000 ''nobody'' = (store_of [lapsed], None) \<and>
   select_user (store_of [student]) ''u1'' = Some student \<and>
   refreshUser (store_of [student]) 10000 ''u1'' = (store_of [student], Some student) \<and>
   refreshUser (store_of [lapsed]) 10000 ''u1'' = (store_of [student], Some student) \<and>
   refreshUser (store_of [student]) 10000 ''u1'' = (store_of [student], Some student)"
  using refreshUser_normalizes [of "store_of [lapsed]" "''u1''" 10000 lapsed]
    refreshUser_normalizes [of "store_of [lapsed]" "''nobody''" 10000 lapsed]
    refreshUser_normalizes [of "store_of [student]" "''u1''" 10000 student]
    lapsed_row nobody_row student_row lapsed_refresh
  by blast

section \<open>The analyze request\<close>

lemma js_trim_Nil [simp]: "js_trim [] = []"
  by (simp add: js_trim_def)

lemma post_analyze_valid:
  assumes "60 \<le> length (js_trim t)" "length t \<le> 15000" "uid \<noteq> []"
    and "refreshUser s now uid = (s1, Some u)"
  shows "post_analyze s now (Some t) (Some uid) g =
           (case analyze_gate (Some u) of
              Some e \<Rightarrow> (s1, Inl e)
            | None \<Rightarrow>
                (case g of
                   FetchThrows \<Rightarrow> (s1, Inl AnalysisFailed)
                 | NotOk \<Rightarrow> (s1, Inl GeminiError)
                 | EmptyText \<Rightarrow> (s1, Inl EmptyGeminiResponse)
                 | Unparsable \<Rightarrow> (s1, Inl AnalysisFailed)
                 | ParsedNull \<Rightarrow> (consume s1 uid u, Inl AnalysisFailed)
                 | Parsed title \<Rightarrow>
                     (log_analysis (consume s1 uid u) uid u title,
                      Inr (str_or title ''Your Project''))))"
proof -
  from assms(1) have "t \<noteq> []" by auto
  with assms show ?thesis
    by (simp add: post_analyze_def split: option.splits gemini.splits)
qed

lemma analyze_gate_None_iff:
  "analyze_gate (Some u) = None \<longleftrightarrow>
     role u = ''admin'' \<or> subscribed u \<or>
     to_num (trials_used u) < num_or (trials_total u) FREE_TRIALS"
  by (auto simp: analyze_gate_def Let_def)

lemma analyze_gate_Some:
  "analyze_gate (Some u) \<noteq> None \<Longrightarrow>
     analyze_gate (Some u)
       = Some (TrialLimit (to_num (trials_used u)) (num_or (trials_total u) FREE_TRIALS))"
  by (auto simp: analyze_gate_def Let_def split: if_splits)

text \<open>
  C1 (amended). The gate of the analyze request lets a user snapshot through exactly when
  the role is admin, or the user is subscribed, or \<open>trials_used\<close> is below the effective
  quota, which is the stored \<open>trials_total\<close> when that is neither null nor 0 and the free
  quota otherwise; with a stored \<open>trials_total\<close> other than null and 0 this is
  \<open>trials_used < trials_total\<close>. In every other case the request is answered with the
  trial-limit error, the store being as \<open>refreshUser\<close> left it.
\<close>

theorem analyze_gate_entitlement:
  "(analyze_gate (Some u) = None \<longleftrightarrow>
      role u = ''admin'' \<or> subscribed u \<or>
      to_num (trials_used u) < num_or (trials_total u) FREE_TRIALS) \<and>
   (trials_total u = Some n \<and> n \<noteq> 0 \<longrightarrow>
      (analyze_gate (Some u) = None \<longleftrightarrow>
         role u = ''admin'' \<or> subscribed u \<or> to_num (trials_used u) < n)) \<and>
   (60 \<le> length (js_trim t) \<and> length t \<le> 15000 \<and> uid \<noteq> [] \<and>
    refreshUser s now uid = (s1, Some u) \<longrightarrow>
      (if role u = ''admin'' \<or> subscribed u \<or>
          to_num (trials_used u) < num_or (trials_total u) FREE_TRIALS
       then \<forall>a b. snd (post_analyze s now (Some t) (Some uid) g) \<noteq> Inl (TrialLimit a b)
       else post_analyze s now (Some t) (Some uid) g
              = (s1, Inl (TrialLimit (to_num (trials_used u))
                                     (num_or (trials_total u) FREE_TRIALS)))))"
proof (intro conjI impI)
  show "analyze_gate (Some u) = None \<longleftrightarrow>
      role u = ''admin'' \<or> subscribed u \<or>
      to_num (trials_used u) < num_or (trials_total u) FREE_TRIALS"
    by (rule analyze_gate_None_iff)
next
  assume "trials_total u = Some n \<and> n \<noteq> 0"
  then have "num_or (trials_total u) FREE_TRIALS = n"
    by (simp add: num_or_def)
  then show "analyze_gate (Some u) = None \<longleftrightarrow>
         role u = ''admin'' \<or> subscribed u \<or> to_num (trials_used u) < n"
    by (simp add: analyze_gate_None_iff)
next
  assume a: "60 \<le> length (js_trim t) \<and> length t \<le> 15000 \<and> uid \<noteq> [] \<and>
    refreshUser s now uid = (s1, Some u)"
  then have v: "post_analyze s now (Some t) (Some uid) g =
           (case analyze_gate (Some u) of
              Some e \<Rightarrow> (s1, Inl e)
            | None \<Rightarrow>
                (case g of
                   FetchThrows \<Rightarrow> (s1, Inl AnalysisFailed)
                 | NotOk \<Rightarrow> (s1, Inl GeminiError)
                 | EmptyText \<Rightarrow> (s1, Inl EmptyGeminiResponse)
                 | Unparsable \<Rightarrow> (s1, Inl AnalysisFailed)
                 | ParsedNull \<Rightarrow> (consume s1 uid u, Inl AnalysisFailed)
                 | Parsed title \<Rightarrow>
                     (log_analysis (consume s1 uid u) uid u title,
                      Inr (str_or title ''Your Project''))))"
    by (simp add: post_analyze_valid)
  show "if role u = ''admin'' \<or> subscribed u \<or>
          to_num (trials_used u) < num_or (trials_total u) FREE_TRIALS
       then \<forall>a b. snd (post_analyze s now (Some t) (Some uid) g) \<noteq> Inl (TrialLimit a b)
       else post_analyze s now (Some t) (Some uid) g
              = (s1, Inl (TrialLimit (to_num (trials_used u))
                                     (num_or (trials_total u) FREE_TRIALS)))"
  proof (cases "analyze_gate (Some u)")
    case None
    then have "role u = ''admin'' \<or> subscribed u \<or>
          to_num (trials_used u) < num_or (trials_total u) FREE_TRIALS"
      by (simp add: analyze_gate_None_iff)
    moreover have "\<forall>a b. snd (post_analyze s now (Some t) (Some uid) g) \<noteq> Inl (TrialLimit a b)"
      unfolding v using None by (cases g) simp_all
    ultimately show ?thesis by simp
  next
    case (Some e)
    then have n: "\<not> (role u = ''admin'' \<or> subscribed u \<or>
          to_num (trials_used u) < num_or (trials_total u) FREE_TRIALS)"
      using analyze_gate_None_iff[of u] by simp
    have "analyze_gate (Some u)
       = Some (TrialLimit (to_num (trials_used u)) (num_or (trials_total u) FREE_TRIALS))"
      using Some by (intro analyze_gate_Some) simp
    with n v show ?thesis by simp
  qed
qed

text \<open>
  C1 as stated fails for a stored \<open>trials_total\<close> of 0: a student who is not subscribed
  and has used one trial is let through, although \<open>trials_used < trials_total\<close> is false.
\<close>

theorem canAnalyze_counterexample:
  "analyze_gate (Some zero_quota) = None \<and>
   snd (post_analyze (store_of [zero_quota]) 0 (Some sample_text) (Some ''u1'') (Parsed None))
     = Inr ''Your Project'' \<and>
   \<not> (role zero_quota = ''admin'' \<or> subscribed zero_quota \<or>
      to_num (trials_used zero_quota) < to_num (trials_total zero_quota))"
proof -
  have g: "analyze_gate (Some zero_quota) = None"
    by (simp add: analyze_gate_def zero_quota_fields num_or_def to_num_def FREE_TRIALS_def)
  have "post_analyze (store_of [zero_quota]) 0 (Some sample_text) (Some ''u1'') (Parsed None)
      = (log_analysis (consume (store_of [zero_quota]) ''u1'' zero_quota) ''u1'' zero_quota None,
         Inr (str_or None ''Your Project''))"
    using sample_text_ok zero_quota_refresh g
    by (simp add: post_analyze_valid)
  then show ?thesis
    using g by (simp add: str_or_def zero_quota_fields to_num_def)
qed

theorem analyze_gate_entitlement_witness:
  "trials_total student = Some 3 \<and> (3::int) \<noteq> 0 \<and>
   60 \<le> length (js_trim sample_text) \<and> length sample_text \<le> 15000 \<and> ''u1'' \<noteq> [] \<and>
   refreshUser (store_of [student]) 0 ''u1'' = (store_of [student], Some student) \<and>
   analyze_gate (Some student) = None \<and>
   (\<forall>a b. snd (post_analyze (store_of [student]) 0 (Some sample_text) (Some ''u1'') NotOk)
            \<noteq> Inl (TrialLimit a b)) \<and>
   refreshUser (store_of [spent]) 0 ''u1'' = (store_of [spent], Some spent) \<and>
   analyze_gate (Some spent) \<noteq> None \<and>
   post_analyze (store_of [spent]) 0 (Some sample_text) (Some ''u1'') (Parsed None)
     = (store_of [spent], Inl (TrialLimit 3 3))"
proof -
  have f: "trials_total student = Some 3" "trials_used student = Some 0"
    by (simp_all add: student_def)
  have lt: "to_num (trials_used student) < num_or (trials_total student) FREE_TRIALS"
    by (simp add: f to_num_def num_or_def)
  have sp: "to_num (trials_used spent) = 3" "num_or (trials_total spent) FREE_TRIALS = 3"
    "role spent \<noteq> ''admin''" "\<not> subscribed spent"
    by (simp_all add: spent_fields to_num_def num_or_def)
  show ?thesis
    using analyze_gate_entitlement [of student 3 sample_text "''u1''" "store_of [student]" 0
        "store_of [student]" NotOk]
      analyze_gate_entitlement [of spent 3 sample_text "''u1''" "store_of [spent]" 0
        "store_of [spent]" "Parsed None"]
      sample_text_ok student_refresh spent_refresh f lt sp
    by simp
qed

lemma num_or_free_nonzero: "num_or x FREE_TRIALS \<noteq> 0"
  by (simp add: num_or_def FREE_TRIALS_def split: option.splits)

lemma num_or_unset: "x = None \<or> x = Some 0 \<Longrightarrow> num_or x d = d"
  by (auto simp: num_or_def)

lemma set_trials_updates:
  "action req = ''set_trials'' \<Longrightarrow>
   admin_updates now u req
     = Inr (\<lambda>row. row\<lparr>trials_total := Some (max 0 (num_or (trialsTotal req) FREE_TRIALS)),
                       trials_used := Some 0\<rparr>)"
  by (simp add: admin_updates_def)

text \<open>
  C9 (amended). The effective quota is never 0. For a user whose stored \<open>trials_total\<close>
  is null or 0, the gate of the analyze request compares \<open>trials_used\<close> with 3, so such a
  user with fewer than 3 used trials is let through; \<open>formatUser\<close> reports a total of 3
  and counts the trials left from 3; \<open>add_trials\<close> adds to 3. \<open>set_trials\<close> does not read
  the stored total: it writes 3 when the requested total is not a number or 0, and
  \<open>max(n, 0)\<close> for any other requested \<open>n\<close>, the same for every user.
\<close>

theorem free_quota_fallback:
  "num_or x FREE_TRIALS \<noteq> 0 \<and>
   v_trials_total (formatUser now u) \<noteq> 0 \<and>
   (trials_total u = None \<or> trials_total u = Some 0 \<longrightarrow>
      (analyze_gate (Some u) = None \<longleftrightarrow>
         role u = ''admin'' \<or> subscribed u \<or> to_num (trials_used u) < 3) \<and>
      (to_num (trials_used u) < 3 \<longrightarrow> analyze_gate (Some u) = None) \<and>
      v_trials_total (formatUser now u) = 3 \<and>
      v_trials_left (formatUser now u) = max 0 (3 - num_or (trials_used u) 0) \<and>
      (action req = ''add_trials'' \<longrightarrow>
         admin_updates now u req
           = Inr (\<lambda>row. row\<lparr>trials_total := Some (3 + max 1 (num_or (trialsToAdd req) 1))\<rparr>)) \<and>
      (60 \<le> length (js_trim t) \<and> length t \<le> 15000 \<and> uid \<noteq> [] \<and>
       refreshUser s now uid = (s1, Some u) \<and> to_num (trials_used u) < 3 \<longrightarrow>
         (\<forall>a b. snd (post_analyze s now (Some t) (Some uid) g) \<noteq> Inl (TrialLimit a b)))) \<and>
   (action req = ''set_trials'' \<and> (trialsTotal req = None \<or> trialsTotal req = Some 0) \<longrightarrow>
      admin_updates now u req
        = Inr (\<lambda>row. row\<lparr>trials_total := Some 3, trials_used := Some 0\<rparr>)) \<and>
   (action req = ''set_trials'' \<longrightarrow>
      (\<forall>n. trialsTotal req = Some n \<and> n \<noteq> 0 \<longrightarrow>
         admin_updates now u req
           = Inr (\<lambda>row. row\<lparr>trials_total := Some (max n 0), trials_used := Some 0\<rparr>)) \<and>
      admin_updates now u req = admin_updates now u2 req)"
proof -
  have z: "trials_total u = None \<or> trials_total u = Some 0 \<Longrightarrow>
           num_or (trials_total u) FREE_TRIALS = 3"
    by (auto simp: num_or_def FREE_TRIALS_def)
  have c1: "num_or x FREE_TRIALS \<noteq> 0"
    by (rule num_or_free_nonzero)
  have c2: "v_trials_total (formatUser now u) \<noteq> 0"
    by (simp add: formatUser_def Let_def num_or_free_nonzero)
  have c3: "(analyze_gate (Some u) = None \<longleftrightarrow>
         role u = ''admin'' \<or> subscribed u \<or> to_num (trials_used u) < 3) \<and>
      (to_num (trials_used u) < 3 \<longrightarrow> analyze_gate (Some u) = None) \<and>
      v_trials_total (formatUser now u) = 3 \<and>
      v_trials_left (formatUser now u) = max 0 (3 - num_or (trials_used u) 0) \<and>
      (action req = ''add_trials'' \<longrightarrow>
         admin_updates now u req
           = Inr (\<lambda>row. row\<lparr>trials_total := Some (3 + max 1 (num_or (trialsToAdd req) 1))\<rparr>))"
    if "trials_total u = None \<or> trials_total u = Some 0"
    using z[OF that]
    by (simp add: analyze_gate_None_iff formatUser_def Let_def admin_updates_def)
  have c4: "\<forall>a b. snd (post_analyze s now (Some t) (Some uid) g) \<noteq> Inl (TrialLimit a b)"
    if q: "trials_total u = None \<or> trials_total u = Some 0"
      and a: "60 \<le> length (js_trim t) \<and> length t \<le> 15000 \<and> uid \<noteq> [] \<and>
       refreshUser s now uid = (s1, Some u) \<and> to_num (trials_used u) < 3"
  proof -
    have gate: "analyze_gate (Some u) = None"
      using a z[OF q] by (simp add: analyze_gate_None_iff)
    from a show ?thesis
      by (cases g) (simp_all add: post_analyze_valid gate)
  qed
  have c5: "admin_updates now u req
        = Inr (\<lambda>row. row\<lparr>trials_total := Some 3, trials_used := Some 0\<rparr>)"
    if "action req = ''set_trials'' \<and> (trialsTotal req = None \<or> trialsTotal req = Some 0)"
    using that by (auto simp: set_trials_updates num_or_def FREE_TRIALS_def)
  have c6: "(\<forall>n. trialsTotal req = Some n \<and> n \<noteq> 0 \<longrightarrow>
         admin_updates now u req
           = Inr (\<lambda>row. row\<lparr>trials_total := Some (max n 0), trials_used := Some 0\<rparr>)) \<and>
      admin_updates now u req = admin_updates now u2 req"
    if "action req = ''set_trials''"
    using that by (auto simp: set_trials_updates num_or_def max.commute)
  show ?thesis
    using c1 c2 c3 c4 c5 c6 by blast
qed

text \<open>
  C9 as stated fails for \<open>set_trials\<close>: for a user whose stored \<open>trials_total\<close> is 0 the
  action with the requested total 5 writes 5, as it does for a user whose stored total is
  3; the stored total is not read and 3 is not put in its place.
\<close>

theorem set_trials_stored_counterexample:
  "trials_total zero_quota = Some 0 \<and> trials_total student = Some 3 \<and>
   admin_updates 0 zero_quota (set_trials_to (Some 5))
     = Inr (\<lambda>row. row\<lparr>trials_total := Some 5, trials_used := Some 0\<rparr>) \<and>
   admin_updates 0 student (set_trials_to (Some 5))
     = Inr (\<lambda>row. row\<lparr>trials_total := Some 5, trials_used := Some 0\<rparr>) \<and>
   select_user (fst (put_admin_user (store_of [zero_quota]) 0 ''u1'' (set_trials_to (Some 5))))
       ''u1''
     = Some (zero_quota\<lparr>trials_total := Some 5, trials_used := Some 0\<rparr>)"
proof -
  have a: "action (set_trials_to (Some 5)) = ''set_trials''"
    "num_or (trialsTotal (set_trials_to (Some 5))) FREE_TRIALS = 5"
    by (simp_all add: set_trials_to_def num_or_def)
  have u: "admin_updates 0 v (set_trials_to (Some 5))
     = Inr (\<lambda>row. row\<lparr>trials_total := Some 5, trials_used := Some 0\<rparr>)" for v
    by (simp add: set_trials_updates a)
  have "put_admin_user (store_of [zero_quota]) 0 ''u1'' (set_trials_to (Some 5))
     = (store_of [zero_quota\<lparr>trials_total := Some 5, trials_used := Some 0\<rparr>],
        Inr (formatUser 0 (zero_quota\<lparr>trials_total := Some 5, trials_used := Some 0\<rparr>)))"
    by (simp add: put_admin_user_def zero_quota_refresh u)
       (simp add: refreshUser_def select_user_def store_of_def single_def update_user_def
          zero_quota_def student_def sub_expired_def)
  then show ?thesis
    using u by (simp add: select_user_def store_of_def single_def zero_quota_def student_def)
qed

theorem free_quota_fallback_witness:
  "trials_total zero_quota = Some 0 \<and> to_num (trials_used zero_quota) < 3 \<and>
   analyze_gate (Some zero_quota) = None \<and>
   v_trials_total (formatUser 0 zero_quota) = 3 \<and>
   v_trials_left (formatUser 0 zero_quota) = 2 \<and>
   action (add_trials_of (Some 2)) = ''add_trials'' \<and>
   admin_updates 0 zero_quota (add_trials_of (Some 2))
     = Inr (\<lambda>row. row\<lparr>trials_total := Some 5\<rparr>) \<and>
   action (set_trials_to (Some 0)) = ''set_trials'' \<and>
   trialsTotal (set_trials_to (Some 0)) = Some 0 \<and>
   admin_updates 0 zero_quota (set_trials_to (Some 0))
     = Inr (\<lambda>row. row\<lparr>trials_total := Some 3, trials_used := Some 0\<rparr>) \<and>
   action (set_trials_to (Some 5)) = ''set_trials'' \<and>
   trialsTotal (set_trials_to (Some 5)) = Some 5 \<and> (5::int) \<noteq> 0 \<and>
   admin_updates 0 zero_quota (set_trials_to (Some 5))
     = Inr (\<lambda>row. row\<lparr>trials_total := Some 5, trials_used := Some 0\<rparr>) \<and>
   admin_updates 0 zero_quota (set_trials_to (Some 5))
     = admin_updates 0 student (set_trials_to (Some 5)) \<and>
   60 \<le> length (js_trim sample_text) \<and> length sample_text \<le> 15000 \<and> ''u1'' \<noteq> [] \<and>
   refreshUser (store_of [zero_quota]) 0 ''u1'' = (store_of [zero_quota], Some zero_quota) \<and>
   (\<forall>a b. snd (post_analyze (store_of [zero_quota]) 0 (Some sample_text) (Some ''u1'') NotOk)
            \<noteq> Inl (TrialLimit a b))"
proof -
  have f: "trials_total zero_quota = Some 0" "to_num (trials_used zero_quota) < 3"
    "num_or (trials_used zero_quota) 0 = 1"
    by (simp_all add: zero_quota_fields to_num_def num_or_def)
  have r: "action (add_trials_of (Some 2)) = ''add_trials''"
    "num_or (trialsToAdd (add_trials_of (Some 2))) 1 = 2"
    "action (set_trials_to (Some 0)) = ''set_trials''"
    "trialsTotal (set_trials_to (Some 0)) = Some 0"
    "action (set_trials_to (Some 5)) = ''set_trials''"
    "trialsTotal (set_trials_to (Some 5)) = Some 5"
    by (simp_all add: add_trials_of_def set_trials_to_def num_or_def)
  show ?thesis
    using free_quota_fallback [of None 0 zero_quota "add_trials_of (Some 2)" sample_text
        "''u1''" "store_of [zero_quota]" "store_of [zero_quota]" NotOk student]
      free_quota_fallback [of None 0 zero_quota "set_trials_to (Some 0)" sample_text "''u1''"
        "store_of [zero_quota]" "store_of [zero_quota]" NotOk student]
      free_quota_fallback [of None 0 zero_quota "set_trials_to (Some 5)" sample_text "''u1''"
        "store_of [zero_quota]" "store_of [zero_quota]" NotOk student]
      f r sample_text_ok zero_quota_refresh
    by simp metis
qed

text \<open>The check of the third revision, spelled out.\<close>

lemma userCanAnalyze_iff:
  "userCanAnalyze free now (Some u) \<longleftrightarrow>
     role_v3 u = ''admin'' \<or>
     (subscribed_v3 u \<and> (sub_expires_v3 u = None \<or> (\<exists>t. sub_expires_v3 u = Some t \<and> now < t))) \<or>
     (\<not> subscribed_v3 u \<and> num_or (trials_used_v3 u) 0 < free + num_or (extra_trials u) 0)"
  by (auto simp: userCanAnalyze_def totalTrialsAllowed_def split: option.splits)

lemma refreshUser_cases:
  assumes "refreshUser s now uid = (s1, Some u)"
  shows "s1 = s \<or> s1 = update_user s uid demote"
  using assms
  by (cases "select_user s uid")
     (auto simp: refreshUser_def dest: select_user_id split: if_splits)

lemma refreshUser_keeps_trials:
  assumes "refreshUser s now uid = (s1, r)"
  shows "map_option trials_used (select_user s1 k) = map_option trials_used (select_user s k) \<and>
         map_option trials_total (select_user s1 k) = map_option trials_total (select_user s k)"
proof (cases "select_user s uid")
  case None
  with assms show ?thesis by (simp add: refreshUser_def)
next
  case (Some u)
  have t: "trials_used (demote v) = trials_used v" "trials_total (demote v) = trials_total v" for v
    by (simp_all add: demote_def)
  from assms Some have "s1 = s \<or> s1 = update_user s uid demote"
    by (auto simp: refreshUser_found split: if_splits)
  then show ?thesis
    by (auto simp: select_user_update option.map_comp o_def t)
qed

lemma consume_row:
  assumes "select_user s uid = Some u"
  shows "select_user (consume s uid u) k =
           (if k = uid
            then Some (if role u \<noteq> ''admin'' \<and> \<not> subscribed u
                       then u\<lparr>trials_used := Some (to_num (trials_used u) + 1)\<rparr> else u)
            else select_user s k)"
  using assms by (simp add: consume_def select_user_update)

lemma select_user_log [simp]: "select_user (log_analysis s uid u title) k = select_user s k"
  by (simp add: select_user_def log_analysis_def)

lemma refreshUser_result:
  "refreshUser s now uid = (s1, r) \<Longrightarrow> select_user s1 uid = r"
  using refreshUser_persisted[of s now uid] by simp

text \<open>
  C2 (amended). For one analyze request that passes the gate: when the request to the
  model fails, or the answer is not ok, or it has no text, or \<open>parseGeminiJSON\<close> rejects
  its text, the request is answered with an error and the store is as \<open>refreshUser\<close>
  left it, which differs from the store before the request at most by the cleared
  subscription of an expired monthly subscriber; \<open>trials_used\<close> and \<open>trials_total\<close> of
  every user are as before. When the text parses to a value other than \<open>null\<close>, the
  request succeeds, the stored \<open>trials_used\<close> of the user is the snapshot's plus 1 for a
  user who is neither admin nor subscribed, the row is the snapshot itself for an admin
  or a subscribed user, and no other user changes. A text that is the JSON value
  \<open>null\<close> is not covered by this statement.
\<close>

theorem analyze_metering:
  assumes "60 \<le> length (js_trim t)" and "length t \<le> 15000" and "uid \<noteq> []"
    and "refreshUser s now uid = (s1, Some u)" and "analyze_gate (Some u) = None"
  shows "(g = FetchThrows \<or> g = NotOk \<or> g = EmptyText \<or> g = Unparsable \<longrightarrow>
            fst (post_analyze s now (Some t) (Some uid) g) = s1 \<and>
            (\<exists>e. snd (post_analyze s now (Some t) (Some uid) g) = Inl e) \<and>
            (s1 = s \<or>
             s1 = update_user s uid
                    (\<lambda>r. r\<lparr>subscribed := False, sub_plan := None, sub_expires := None\<rparr>)) \<and>
            (\<forall>k. map_option trials_used (select_user s1 k)
                   = map_option trials_used (select_user s k) \<and>
                 map_option trials_total (select_user s1 k)
                   = map_option trials_total (select_user s k))) \<and>
         (g = Parsed title \<longrightarrow>
            snd (post_analyze s now (Some t) (Some uid) g) = Inr (str_or title ''Your Project'') \<and>
            select_user (fst (post_analyze s now (Some t) (Some uid) g)) uid =
              Some (if role u \<noteq> ''admin'' \<and> \<not> subscribed u
                    then u\<lparr>trials_used := Some (to_num (trials_used u) + 1)\<rparr> else u) \<and>
            (\<forall>k. k \<noteq> uid \<longrightarrow>
               select_user (fst (post_analyze s now (Some t) (Some uid) g)) k
                 = select_user s1 k))"
proof -
  note v = post_analyze_valid[OF assms(1-4), of g]
  have d: "demote = (\<lambda>r. r\<lparr>subscribed := False, sub_plan := None, sub_expires := None\<rparr>)"
    by (rule ext) (simp add: demote_def)
  have row: "select_user s1 uid = Some u"
    using assms(4) by (rule refreshUser_result)
  have fail: "fst (post_analyze s now (Some t) (Some uid) g) = s1 \<and>
            (\<exists>e. snd (post_analyze s now (Some t) (Some uid) g) = Inl e)"
    if "g = FetchThrows \<or> g = NotOk \<or> g = EmptyText \<or> g = Unparsable"
    using that v assms(5) by auto
  have st: "s1 = s \<or>
             s1 = update_user s uid
                    (\<lambda>r. r\<lparr>subscribed := False, sub_plan := None, sub_expires := None\<rparr>)"
    using refreshUser_cases[OF assms(4)] by (simp add: d)
  have ok: "snd (post_analyze s now (Some t) (Some uid) g) = Inr (str_or title ''Your Project'') \<and>
            select_user (fst (post_analyze s now (Some t) (Some uid) g)) uid =
              Some (if role u \<noteq> ''admin'' \<and> \<not> subscribed u
                    then u\<lparr>trials_used := Some (to_num (trials_used u) + 1)\<rparr> else u) \<and>
            (\<forall>k. k \<noteq> uid \<longrightarrow>
               select_user (fst (post_analyze s now (Some t) (Some uid) g)) k
                 = select_user s1 k)"
    if "g = Parsed title"
    using that v assms(5) by (simp add: consume_row[OF row])
  show ?thesis
    using fail st ok refreshUser_keeps_trials[OF assms(4)] by blast
qed

text \<open>
  C2 as stated fails for an expired monthly subscriber: the model's answer is not ok, and
  still the stored \<open>subscribed\<close>, \<open>sub_plan\<close> and \<open>sub_expires\<close> have changed.
\<close>

theorem failed_analysis_counterexample:
  "select_user (store_of [lapsed]) ''u1'' = Some lapsed \<and> subscribed lapsed \<and>
   post_analyze (store_of [lapsed]) 10000 (Some sample_text) (Some ''u1'') NotOk
     = (store_of [student], Inl GeminiError) \<and>
   select_user (store_of [student]) ''u1'' = Some student \<and> \<not> subscribed student"
proof -
  have "post_analyze (store_of [lapsed]) 10000 (Some sample_text) (Some ''u1'') NotOk
     = (store_of [student], Inl GeminiError)"
    using sample_text_ok lapsed_refresh student_gate by (simp add: post_analyze_valid)
  moreover have "select_user (store_of [lapsed]) ''u1'' = Some lapsed \<and> subscribed lapsed"
    by (simp add: select_user_def store_of_def single_def lapsed_def student_def)
  moreover have "select_user (store_of [student]) ''u1'' = Some student \<and> \<not> subscribed student"
    by (simp add: select_user_def store_of_def single_def student_def)
  ultimately show ?thesis by simp
qed

theorem analyze_metering_witness:
  "60 \<le> length (js_trim sample_text) \<and> length sample_text \<le> 15000 \<and> ''u1'' \<noteq> [] \<and>
   refreshUser (store_of [student]) 0 ''u1'' = (store_of [student], Some student) \<and>
   analyze_gate (Some student) = None \<and>
   fst (post_analyze (store_of [student]) 0 (Some sample_text) (Some ''u1'') NotOk)
     = store_of [student] \<and>
   select_user (fst (post_analyze (store_of [student]) 0 (Some sample_text) (Some ''u1'')
                       (Parsed None))) ''u1''
     = Some (student\<lparr>trials_used := Some 1\<rparr>)"
proof -
  have r: "role student \<noteq> ''admin'' \<and> \<not> subscribed student \<and> to_num (trials_used student) = 0"
    by (simp add: student_def to_num_def)
  have v: "60 \<le> length (js_trim sample_text)" "length sample_text \<le> 15000" "''u1'' \<noteq> []"
    using sample_text_ok by simp_all
  show ?thesis
    using analyze_metering [OF v student_refresh student_gate, of NotOk None]
      analyze_metering [OF v student_refresh student_gate, of "Parsed None" None]
      v student_refresh student_gate r
    by simp
qed

text \<open>
  The case left out above: when the text of the model is the JSON value \<open>null\<close>, the
  handler writes \<open>trials_used + 1\<close> and then fails on reading \<open>parsed.projectTitle\<close>,
  so the request is answered with an error after the trial has been counted.
\<close>

lemma null_reply_counts_trial:
  "post_analyze (store_of [student]) 0 (Some sample_text) (Some ''u1'') ParsedNull
     = (store_of [student\<lparr>trials_used := Some 1\<rparr>], Inl AnalysisFailed) \<and>
   trials_used student = Some 0"
proof -
  have "consume (store_of [student]) ''u1'' student = store_of [student\<lparr>trials_used := Some 1\<rparr>]"
    by (simp add: consume_def update_user_def store_of_def student_def to_num_def)
  then show ?thesis
    using sample_text_ok student_refresh student_gate
    by (simp add: post_analyze_valid) (simp add: student_def)
qed

section \<open>Coupon redemption\<close>

lemma code_B: "js_upper (js_trim ''VS-ABC12345'') = ''VS-ABC12345''"
  by code_simp

lemmas scen_defs = shop_def shop_after_def coupon_B_def friend_def student_def
lemmas store_defs = select_coupon_def select_user_def select_redemption_def single_def
  update_coupon_def update_user_def insert_redemption_def use_coupon_def coupon_grant_def
  attempt_def truthy_num_def to_num_def num_or_def str_or_def FREE_TRIALS_def

lemma shop_first:
  "post_coupons_redeem shop 0 (Some ''VS-ABC12345'') (Some ''u1'')
     = (shop_after, Inr (''trials'', 2))"
  by (simp add: post_coupons_redeem_def redeem_with_def code_B scen_defs store_defs)

lemma shop_second:
  "redeem_with w1 w2 w3 shop_after 5 (Some ''VS-ABC12345'') (Some ''u1'')
     = (shop_after, Inl CouponInactive)"
  by (simp add: redeem_with_def code_B scen_defs store_defs)

lemma shop_other:
  "redeem_with w1 w2 w3 shop_after 5 (Some ''VS-ABC12345'') (Some ''u2'')
     = (shop_after, Inl CouponInactive)"
  by (simp add: redeem_with_def code_B scen_defs store_defs)



lemma single_filter_map:
  assumes "\<And>x. P (g x) = P x"
  shows "single (filter P (map g xs)) = map_option g (single (filter P xs))"
proof -
  have "filter P (map g xs) = map g (filter P xs)"
    using assms by (induction xs) auto
  then show ?thesis by (simp add: single_map)
qed

lemma select_coupon_update:
  assumes "\<And>row. code (f row) = code row"
  shows "select_coupon (update_coupon cid f s) c
         = map_option (\<lambda>cp. if c_id cp = cid then f cp else cp) (select_coupon s c)"
  unfolding select_coupon_def update_coupon_def
  by (simp add: single_filter_map assms)

lemma use_coupon_code [simp]: "code (use_coupon cp row) = code row"
  and use_coupon_id [simp]: "c_id (use_coupon cp row) = c_id row"
  by (simp_all add: use_coupon_def)

lemma select_coupon_frame [simp]:
  "select_coupon (update_user s uid f) c = select_coupon s c"
  "select_coupon (insert_redemption cid uid s) c = select_coupon s c"
  by (simp_all add: select_coupon_def update_user_def insert_redemption_def)

lemma select_redemption_frame [simp]:
  "select_redemption (update_user s uid f) cid k = select_redemption s cid k"
  "select_redemption (update_coupon c g s) cid k = select_redemption s cid k"
  by (simp_all add: select_redemption_def update_user_def update_coupon_def)

lemma select_user_frame [simp]:
  "select_user (update_coupon c g s) k = select_user s k"
  "select_user (insert_redemption cid uid s) k = select_user s k"
  by (simp_all add: select_user_def update_coupon_def insert_redemption_def)

lemma redemptions_frame [simp]:
  "coupon_redemptions (update_user s uid f) = coupon_redemptions s"
  "coupon_redemptions (update_coupon c g s) = coupon_redemptions s"
  "coupon_redemptions (insert_redemption cid uid s)
     = coupon_redemptions s @ [\<lparr>coupon_id = cid, r_user_id = uid\<rparr>]"
  by (simp_all add: update_user_def update_coupon_def insert_redemption_def)

lemma coupons_frame [simp]:
  "coupons (update_user s uid f) = coupons s"
  "coupons (insert_redemption cid uid s) = coupons s"
  by (simp_all add: update_user_def insert_redemption_def)

lemma users_frame [simp]:
  "users (update_coupon c g s) = users s"
  "users (insert_redemption cid uid s) = users s"
  by (simp_all add: update_coupon_def insert_redemption_def)

text \<open>The five checks of a redemption, on the coupon found and the store.\<close>

lemma redeem_with_found:
  assumes "c \<noteq> []" and "uid \<noteq> []" and "select_coupon s (js_upper (js_trim c)) = Some cp"
  shows "redeem_with w1 w2 w3 s now (Some c) (Some uid) =
     (if \<not> active cp then (s, Inl CouponInactive)
      else if truthy_num (max_uses cp) \<and> uses cp \<ge> to_num (max_uses cp)
      then (s, Inl CouponExhausted)
      else if (case expiry_date cp of None \<Rightarrow> False | Some t \<Rightarrow> t < now)
      then (s, Inl CouponExpired)
      else if select_redemption s (c_id cp) uid \<noteq> None then (s, Inl AlreadyRedeemed)
      else
      (case attempt w1 (update_coupon (c_id cp) (use_coupon cp)) s of
         None \<Rightarrow> (s, Inl RedeemFailed)
       | Some s1 \<Rightarrow>
      (case attempt w2 (\<lambda>st. update_user st uid (coupon_grant s1 now cp uid)) s1 of
         None \<Rightarrow> (s1, Inl RedeemFailed)
       | Some s2 \<Rightarrow>
      (case attempt w3 (insert_redemption (c_id cp) uid) s2 of
         None \<Rightarrow> (s2, Inl RedeemFailed)
       | Some s3 \<Rightarrow>
           (s3, Inr (if num_or (trial_grant cp) 0 > 0 then ''trials'' else ''unlimited'',
                     num_or (trial_grant cp) 0))))))"
  using assms by (simp add: redeem_with_def)

lemma redeem_success_cases:
  assumes "post_coupons_redeem s now code_in uid_in = (s', Inr r)"
  obtains c uid cp where "code_in = Some c" "uid_in = Some uid" "c \<noteq> []" "uid \<noteq> []"
    "select_coupon s (js_upper (js_trim c)) = Some cp" "active cp"
    "\<not> (truthy_num (max_uses cp) \<and> uses cp \<ge> to_num (max_uses cp))"
    "\<not> (case expiry_date cp of None \<Rightarrow> False | Some t \<Rightarrow> t < now)"
    "select_redemption s (c_id cp) uid = None"
    "s' = insert_redemption (c_id cp) uid
            (update_user (update_coupon (c_id cp) (use_coupon cp) s) uid
               (coupon_grant (update_coupon (c_id cp) (use_coupon cp) s) now cp uid))"
  using assms
  by (auto simp: post_coupons_redeem_def redeem_with_def attempt_def
      split: option.splits if_splits)

lemma coupon_grant_frame [simp]:
  "coupon_grant (update_coupon c g s) now cp uid = coupon_grant s now cp uid"
  by (simp add: coupon_grant_def Let_def)

lemma coupon_grant_id [simp]: "u_id (coupon_grant s now cp uid row) = u_id row"
  by (simp add: coupon_grant_def Let_def)

lemma attempt_cases:
  "attempt w f s = (if w = Applied then Some (f s) else if w = Errored then Some s else None)"
  by (cases w) (simp_all add: attempt_def)






lemma shop_coupon: "select_coupon shop ''VS-ABC12345'' = Some coupon_B"
  by (simp add: scen_defs store_defs)



lemma redemption_eq_iff:
  "(coupon_id r = a \<and> r_user_id r = b) \<longleftrightarrow> r = \<lparr>coupon_id = a, r_user_id = b\<rparr>"
  by (cases r) auto

lemma filter_eq_distinct:
  "distinct xs \<Longrightarrow> filter (\<lambda>y. y = x) xs = (if x \<in> set xs then [x] else [])"
  by (induction xs) auto

lemma select_redemption_distinct:
  assumes "distinct (coupon_redemptions s)"
  shows "select_redemption s a b =
           (if \<lparr>coupon_id = a, r_user_id = b\<rparr> \<in> set (coupon_redemptions s)
            then Some \<lparr>coupon_id = a, r_user_id = b\<rparr> else None)"
  using assms
  by (simp add: select_redemption_def redemption_eq_iff filter_eq_distinct single_def)

lemma redeem_with_redemptions:
  "coupon_redemptions (fst (redeem_with w1 w2 w3 s now code_in uid_in)) = coupon_redemptions s \<or>
   (\<exists>a b. select_redemption s a b = None \<and>
      coupon_redemptions (fst (redeem_with w1 w2 w3 s now code_in uid_in))
        = coupon_redemptions s @ [\<lparr>coupon_id = a, r_user_id = b\<rparr>])"
  by (auto simp: redeem_with_def attempt_cases split: option.splits)

lemma redeem_with_distinct:
  assumes "distinct (coupon_redemptions s)"
  shows "distinct (coupon_redemptions (fst (redeem_with w1 w2 w3 s now code_in uid_in)))"
proof -
  consider
    "coupon_redemptions (fst (redeem_with w1 w2 w3 s now code_in uid_in)) = coupon_redemptions s"
  | a b where "select_redemption s a b = None"
      "coupon_redemptions (fst (redeem_with w1 w2 w3 s now code_in uid_in))
        = coupon_redemptions s @ [\<lparr>coupon_id = a, r_user_id = b\<rparr>]"
    using redeem_with_redemptions[of w1 w2 w3 s now code_in uid_in] by blast
  then show ?thesis
  proof cases
    case 1
    with assms show ?thesis by simp
  next
    case 2
    from 2(1) assms have "\<lparr>coupon_id = a, r_user_id = b\<rparr> \<notin> set (coupon_redemptions s)"
      by (simp add: select_redemption_distinct split: if_splits)
    with assms show ?thesis by (simp add: 2(2))
  qed
qed

lemma redeem_with_repeat:
  assumes "c \<noteq> []" and "uid \<noteq> []"
    and "select_coupon s (js_upper (js_trim c)) = Some cp"
    and "select_redemption s (c_id cp) uid \<noteq> None"
  shows "redeem_with w1 w2 w3 s now (Some c) (Some uid) =
           (s, Inl (if \<not> active cp then CouponInactive
                    else if truthy_num (max_uses cp) \<and> uses cp \<ge> to_num (max_uses cp)
                    then CouponExhausted
                    else if (case expiry_date cp of None \<Rightarrow> False | Some t \<Rightarrow> t < now)
                    then CouponExpired
                    else AlreadyRedeemed))"
  using assms(4) by (simp add: redeem_with_found[OF assms(1-3)])

text \<open>
  C4 (amended). A redemption attempt by a user for a coupon that this user has a
  redemption row for leaves the store as it is and fails with the first of: coupon
  inactive, coupon exhausted, coupon expired, already redeemed. A redemption keeps the
  redemption rows free of duplicates, so that no pair of coupon and user ever has two
  rows; and straight after a successful redemption, a further attempt by the same user
  with the same code fails with one of these four errors and changes nothing.
\<close>

theorem redeem_once:
  "(c \<noteq> [] \<and> uid \<noteq> [] \<and> select_coupon s (js_upper (js_trim c)) = Some cp \<and>
    select_redemption s (c_id cp) uid \<noteq> None \<longrightarrow>
      redeem_with w1 w2 w3 s now (Some c) (Some uid) =
        (s, Inl (if \<not> active cp then CouponInactive
                 else if truthy_num (max_uses cp) \<and> uses cp \<ge> to_num (max_uses cp)
                 then CouponExhausted
                 else if (case expiry_date cp of None \<Rightarrow> False | Some t \<Rightarrow> t < now)
                 then CouponExpired
                 else AlreadyRedeemed))) \<and>
   (distinct (coupon_redemptions s) \<longrightarrow>
      distinct (coupon_redemptions (fst (redeem_with w1 w2 w3 s now code_in uid_in)))) \<and>
   (distinct (coupon_redemptions s) \<and>
    post_coupons_redeem s now code_in uid_in = (s', Inr r) \<longrightarrow>
      (\<exists>e. redeem_with w1 w2 w3 s' now' code_in uid_in = (s', Inl e) \<and>
           (e = CouponInactive \<or> e = CouponExhausted \<or> e = CouponExpired \<or>
            e = AlreadyRedeemed)))"
proof (intro conjI impI)
  assume "c \<noteq> [] \<and> uid \<noteq> [] \<and> select_coupon s (js_upper (js_trim c)) = Some cp \<and>
    select_redemption s (c_id cp) uid \<noteq> None"
  then show "redeem_with w1 w2 w3 s now (Some c) (Some uid) =
        (s, Inl (if \<not> active cp then CouponInactive
                 else if truthy_num (max_uses cp) \<and> uses cp \<ge> to_num (max_uses cp)
                 then CouponExhausted
                 else if (case expiry_date cp of None \<Rightarrow> False | Some t \<Rightarrow> t < now)
                 then CouponExpired
                 else AlreadyRedeemed))"
    by (simp add: redeem_with_repeat)
next
  assume "distinct (coupon_redemptions s)"
  then show "distinct (coupon_redemptions (fst (redeem_with w1 w2 w3 s now code_in uid_in)))"
    by (rule redeem_with_distinct)
next
  assume a: "distinct (coupon_redemptions s) \<and>
    post_coupons_redeem s now code_in uid_in = (s', Inr r)"
  then have d: "distinct (coupon_redemptions s)"
    and ok: "post_coupons_redeem s now code_in uid_in = (s', Inr r)"
    by simp_all
  from ok obtain c0 uid0 cp0 where
    io: "code_in = Some c0" "uid_in = Some uid0" and ne: "c0 \<noteq> []" "uid0 \<noteq> []"
    and cp0: "select_coupon s (js_upper (js_trim c0)) = Some cp0"
    and fresh: "select_redemption s (c_id cp0) uid0 = None"
    and s': "s' = insert_redemption (c_id cp0) uid0
            (update_user (update_coupon (c_id cp0) (use_coupon cp0) s) uid0
               (coupon_grant (update_coupon (c_id cp0) (use_coupon cp0) s) now cp0 uid0))"
    by (rule redeem_success_cases)
  have cp': "select_coupon s' (js_upper (js_trim c0)) = Some (use_coupon cp0 cp0)"
    by (simp add: s' select_coupon_update cp0)
  have "\<lparr>coupon_id = c_id cp0, r_user_id = uid0\<rparr> \<notin> set (coupon_redemptions s)"
    using fresh d by (simp add: select_redemption_distinct split: if_splits)
  then have d': "distinct (coupon_redemptions s')"
    using d by (simp add: s')
  have row: "select_redemption s' (c_id (use_coupon cp0 cp0)) uid0 \<noteq> None"
    using d' by (simp add: select_redemption_distinct) (simp add: s')
  show "\<exists>e. redeem_with w1 w2 w3 s' now' code_in uid_in = (s', Inl e) \<and>
           (e = CouponInactive \<or> e = CouponExhausted \<or> e = CouponExpired \<or>
            e = AlreadyRedeemed)"
    unfolding io redeem_with_repeat[OF ne cp' row] by simp
qed

theorem redeem_once_witness:
  "distinct (coupon_redemptions shop) \<and>
   post_coupons_redeem shop 0 (Some ''VS-ABC12345'') (Some ''u1'')
     = (shop_after, Inr (''trials'', 2)) \<and>
   ''VS-ABC12345'' \<noteq> [] \<and> ''u1'' \<noteq> [] \<and>
   select_coupon shop_after (js_upper (js_trim ''VS-ABC12345''))
     = Some (coupon_B\<lparr>uses := 1, active := False\<rparr>) \<and>
   select_redemption shop_after (c_id (coupon_B\<lparr>uses := 1, active := False\<rparr>)) ''u1'' \<noteq> None \<and>
   redeem_with Applied Applied Applied shop_after 5 (Some ''VS-ABC12345'') (Some ''u1'')
     = (shop_after, Inl CouponInactive) \<and>
   distinct (coupon_redemptions shop_after)"
proof -
  have h: "distinct (coupon_redemptions shop)"
    "''VS-ABC12345'' \<noteq> [] \<and> ''u1'' \<noteq> [] \<and>
     select_coupon shop_after (js_upper (js_trim ''VS-ABC12345''))
       = Some (coupon_B\<lparr>uses := 1, active := False\<rparr>) \<and>
     select_redemption shop_after (c_id (coupon_B\<lparr>uses := 1, active := False\<rparr>)) ''u1'' \<noteq> None"
    "\<not> active (coupon_B\<lparr>uses := 1, active := False\<rparr>)"
    by (simp_all add: code_B) (simp_all add: scen_defs store_defs)
  show ?thesis
    using redeem_once [of "''VS-ABC12345''" "''u1''" shop_after
        "coupon_B\<lparr>uses := 1, active := False\<rparr>" Applied Applied Applied 5
        "Some ''VS-ABC12345''" "Some ''u1''" shop_after "(''trials'', 2)" 5]
      redeem_once [of "''VS-ABC12345''" "''u1''" shop coupon_B Applied Applied Applied 0
        "Some ''VS-ABC12345''" "Some ''u1''" shop_after "(''trials'', 2)" 5]
      h shop_first shop_first[unfolded post_coupons_redeem_def]
    by simp
qed

text \<open>
  C4 as stated fails for a coupon with a single use: the second attempt of the same user
  is refused because the coupon is inactive, not as already redeemed.
\<close>

theorem already_redeemed_counterexample:
  "post_coupons_redeem shop 0 (Some ''VS-ABC12345'') (Some ''u1'')
     = (shop_after, Inr (''trials'', 2)) \<and>
   post_coupons_redeem shop_after 5 (Some ''VS-ABC12345'') (Some ''u1'')
     = (shop_after, Inl CouponInactive) \<and>
   CouponInactive \<noteq> AlreadyRedeemed"
  by (simp add: shop_first) (simp add: post_coupons_redeem_def shop_second)

text \<open>
  C5 (amended). The redemption that takes the last use of a coupon writes the count
  \<open>max_uses\<close> and the flag \<open>active = false\<close> in one update of the coupon row, whatever
  becomes of the later writes. Every further attempt with this code, by any user, then
  fails because the coupon is inactive and changes nothing; an attempt on a coupon that is
  active with its uses at or above \<open>max_uses\<close> (re-activated by an admin) fails as
  exhausted.
\<close>

theorem redeem_final_use:
  assumes "c \<noteq> []" and "uid \<noteq> []"
    and "select_coupon s (js_upper (js_trim c)) = Some cp" and "active cp"
    and "\<not> (truthy_num (max_uses cp) \<and> uses cp \<ge> to_num (max_uses cp))"
    and "\<not> (case expiry_date cp of None \<Rightarrow> False | Some t \<Rightarrow> t < now)"
    and "select_redemption s (c_id cp) uid = None"
    and "truthy_num (max_uses cp)" and "uses cp + 1 \<ge> to_num (max_uses cp)"
  shows "select_coupon (fst (redeem_with Applied w2 w3 s now (Some c) (Some uid)))
           (js_upper (js_trim c)) = Some (cp\<lparr>uses := uses cp + 1, active := False\<rparr>) \<and>
         uses cp + 1 = to_num (max_uses cp) \<and>
         (c2 \<noteq> [] \<and> uid2 \<noteq> [] \<and> js_upper (js_trim c2) = js_upper (js_trim c) \<longrightarrow>
            redeem_with v1 v2 v3 (fst (redeem_with Applied w2 w3 s now (Some c) (Some uid))) now'
                (Some c2) (Some uid2)
              = (fst (redeem_with Applied w2 w3 s now (Some c) (Some uid)), Inl CouponInactive)) \<and>
         (c2 \<noteq> [] \<and> uid2 \<noteq> [] \<and> select_coupon s2 (js_upper (js_trim c2)) = Some cp2 \<and>
          active cp2 \<and> truthy_num (max_uses cp2) \<and> uses cp2 \<ge> to_num (max_uses cp2) \<longrightarrow>
            redeem_with v1 v2 v3 s2 now' (Some c2) (Some uid2) = (s2, Inl CouponExhausted))"
proof (intro conjI impI)
  let ?s1 = "update_coupon (c_id cp) (use_coupon cp) s"
  let ?r = "fst (redeem_with Applied w2 w3 s now (Some c) (Some uid))"
  have u: "use_coupon cp cp = cp\<lparr>uses := uses cp + 1, active := False\<rparr>"
    using assms(8,9) by (simp add: use_coupon_def)
  have c1: "coupons ?r = coupons ?s1"
    using assms(4-7) by (auto simp: redeem_with_found[OF assms(1-3)] attempt_cases)
  have "select_coupon ?r (js_upper (js_trim c)) = select_coupon ?s1 (js_upper (js_trim c))"
    by (simp add: select_coupon_def c1)
  then show row: "select_coupon ?r (js_upper (js_trim c))
      = Some (cp\<lparr>uses := uses cp + 1, active := False\<rparr>)"
    by (simp add: select_coupon_update assms(3) u)
  show "uses cp + 1 = to_num (max_uses cp)"
    using assms(5,8,9) by simp
  {
    assume a: "c2 \<noteq> [] \<and> uid2 \<noteq> [] \<and> js_upper (js_trim c2) = js_upper (js_trim c)"
    then have "select_coupon ?r (js_upper (js_trim c2))
      = Some (cp\<lparr>uses := uses cp + 1, active := False\<rparr>)"
      using row by simp
    with a show "redeem_with v1 v2 v3 ?r now' (Some c2) (Some uid2) = (?r, Inl CouponInactive)"
      by (simp add: redeem_with_found)
  }
  {
    assume "c2 \<noteq> [] \<and> uid2 \<noteq> [] \<and> select_coupon s2 (js_upper (js_trim c2)) = Some cp2 \<and>
          active cp2 \<and> truthy_num (max_uses cp2) \<and> uses cp2 \<ge> to_num (max_uses cp2)"
    then show "redeem_with v1 v2 v3 s2 now' (Some c2) (Some uid2) = (s2, Inl CouponExhausted)"
      by (simp add: redeem_with_found)
  }
qed

theorem redeem_final_use_witness:
  "''VS-ABC12345'' \<noteq> [] \<and> ''u1'' \<noteq> [] \<and> ''u2'' \<noteq> [] \<and>
   select_coupon shop (js_upper (js_trim ''VS-ABC12345'')) = Some coupon_B \<and> active coupon_B \<and>
   select_redemption shop (c_id coupon_B) ''u1'' = None \<and>
   truthy_num (max_uses coupon_B) \<and> uses coupon_B + 1 \<ge> to_num (max_uses coupon_B) \<and>
   select_coupon shop_after ''VS-ABC12345'' = Some (coupon_B\<lparr>uses := 1, active := False\<rparr>) \<and>
   redeem_with Applied Applied Applied shop_after 5 (Some ''VS-ABC12345'') (Some ''u2'')
     = (shop_after, Inl CouponInactive) \<and>
   select_coupon shop_reopened (js_upper (js_trim ''VS-ABC12345'')) = Some (coupon_B\<lparr>uses := 1\<rparr>) \<and>
   redeem_with Applied Applied Applied shop_reopened 5 (Some ''VS-ABC12345'') (Some ''u2'')
     = (shop_reopened, Inl CouponExhausted)"
proof -
  have h: "''VS-ABC12345'' \<noteq> []" "''u1'' \<noteq> []"
    "select_coupon shop (js_upper (js_trim ''VS-ABC12345'')) = Some coupon_B" "active coupon_B"
    "\<not> (truthy_num (max_uses coupon_B) \<and> uses coupon_B \<ge> to_num (max_uses coupon_B))"
    "\<not> (case expiry_date coupon_B of None \<Rightarrow> False | Some t \<Rightarrow> t < 0)"
    "select_redemption shop (c_id coupon_B) ''u1'' = None"
    "truthy_num (max_uses coupon_B)" "uses coupon_B + 1 \<ge> to_num (max_uses coupon_B)"
    by (simp_all add: code_B shop_coupon) (simp_all add: scen_defs store_defs)
  have k: "select_coupon shop_reopened (js_upper (js_trim ''VS-ABC12345''))
             = Some (coupon_B\<lparr>uses := 1\<rparr>)"
    "active (coupon_B\<lparr>uses := 1\<rparr>)" "truthy_num (max_uses (coupon_B\<lparr>uses := 1\<rparr>))"
    "uses (coupon_B\<lparr>uses := 1\<rparr>) \<ge> to_num (max_uses (coupon_B\<lparr>uses := 1\<rparr>))"
    "uses coupon_B = 0" "''u2'' \<noteq> []"
    by (simp_all add: code_B shop_reopened_def) (simp_all add: scen_defs store_defs)
  show ?thesis
    using redeem_final_use [OF h, of Applied Applied "''VS-ABC12345''" "''u2''" Applied Applied
        Applied 5 shop_reopened "coupon_B\<lparr>uses := 1\<rparr>"]
      h k shop_first[unfolded post_coupons_redeem_def]
    by (simp add: code_B)
qed

text \<open>
  C5 as stated fails: after the last use, the attempt of another user is refused because
  the coupon is inactive, not as exhausted.
\<close>

theorem exhausted_coupon_counterexample:
  "post_coupons_redeem shop 0 (Some ''VS-ABC12345'') (Some ''u1'')
     = (shop_after, Inr (''trials'', 2)) \<and>
   select_coupon shop_after ''VS-ABC12345'' = Some (coupon_B\<lparr>uses := 1, active := False\<rparr>) \<and>
   max_uses coupon_B = Some 1 \<and>
   post_coupons_redeem shop_after 5 (Some ''VS-ABC12345'') (Some ''u2'')
     = (shop_after, Inl CouponInactive) \<and>
   CouponInactive \<noteq> CouponExhausted"
proof -
  have "post_coupons_redeem shop_after 5 (Some ''VS-ABC12345'') (Some ''u2'')
     = (shop_after, Inl CouponInactive)"
    by (simp add: post_coupons_redeem_def shop_other)
  moreover have "select_coupon shop_after ''VS-ABC12345''
      = Some (coupon_B\<lparr>uses := 1, active := False\<rparr>) \<and> max_uses coupon_B = Some 1"
    by (simp add: scen_defs store_defs)
  ultimately show ?thesis
    by (simp add: shop_first)
qed

section \<open>Admin actions on a user\<close>

lemma refreshUser_not_expired:
  assumes "refreshUser s now uid = (s1, Some u)"
  shows "\<not> sub_expired now u"
  using assms
  by (cases "select_user s uid") (auto simp: refreshUser_def split: if_splits)

lemma refreshUser_current:
  assumes "select_user s uid = Some u" and "\<not> sub_expired now u"
  shows "refreshUser s now uid = (s, Some u)"
  using assms by (simp add: refreshUser_found)

lemma set_trials_written: "max 0 (num_or n FREE_TRIALS) = (case n of None \<Rightarrow> 3 | Some k \<Rightarrow> if k = 0 then 3 else max k 0)"
  by (simp add: num_or_def FREE_TRIALS_def max_def split: option.splits)

text \<open>
  C8 (amended). The admin action \<open>set_trials\<close> on an existing user writes, in one update
  of the row, \<open>trials_total = max(n, 0)\<close> for a requested number \<open>n\<close> other than 0 and
  \<open>trials_total = 3\<close> when the request gives no number or gives 0, together with
  \<open>trials_used = 0\<close>; every other field of the row is as \<open>refreshUser\<close> returned it,
  and no other user changes.
\<close>

theorem set_trials_total:
  assumes "refreshUser s now uid = (s1, Some u)" and "action req = ''set_trials''"
    and "q = (case trialsTotal req of None \<Rightarrow> 3 | Some n \<Rightarrow> if n = 0 then 3 else max n 0)"
  shows "put_admin_user s now uid req
           = (update_user s1 uid (\<lambda>row. row\<lparr>trials_total := Some q, trials_used := Some 0\<rparr>),
              Inr (formatUser now (u\<lparr>trials_total := Some q, trials_used := Some 0\<rparr>))) \<and>
         select_user (fst (put_admin_user s now uid req)) uid
           = Some (u\<lparr>trials_total := Some q, trials_used := Some 0\<rparr>) \<and>
         (\<forall>k. k \<noteq> uid \<longrightarrow>
            select_user (fst (put_admin_user s now uid req)) k = select_user s1 k) \<and>
         (\<forall>n. trialsTotal req = Some n \<and> n \<noteq> 0 \<longrightarrow> q = max n 0)"
proof -
  let ?f = "\<lambda>row. row\<lparr>trials_total := Some q, trials_used := Some 0\<rparr>"
  have upd: "admin_updates now u req = Inr ?f"
    using assms(2,3) by (simp add: admin_updates_def set_trials_written)
  have row: "select_user s1 uid = Some u"
    using assms(1) by (rule refreshUser_result)
  have row2: "select_user (update_user s1 uid ?f) uid = Some (?f u)"
    by (simp add: select_user_update row)
  have "\<not> sub_expired now (?f u)"
    using refreshUser_not_expired[OF assms(1)] by (simp add: sub_expired_def)
  then have again: "refreshUser (update_user s1 uid ?f) now uid = (update_user s1 uid ?f, Some (?f u))"
    using row2 by (simp add: refreshUser_current)
  have res: "put_admin_user s now uid req = (update_user s1 uid ?f, Inr (formatUser now (?f u)))"
    by (simp add: put_admin_user_def assms(1) upd again)
  show ?thesis
    using res row2 assms(3) by (simp add: select_user_update)
qed

text \<open>
  C8 as stated fails for the input 0: the stored total becomes 3, not \<open>max(0, 0) = 0\<close>.
\<close>

theorem set_trials_counterexample:
  "select_user (store_of [student\<lparr>trials_used := Some 2\<rparr>]) ''u1''
     = Some (student\<lparr>trials_used := Some 2\<rparr>) \<and>
   select_user (fst (put_admin_user (store_of [student\<lparr>trials_used := Some 2\<rparr>]) 0 ''u1''
                       (set_trials_to (Some 0)))) ''u1''
     = Some (student\<lparr>trials_total := Some 3, trials_used := Some 0\<rparr>) \<and>
   Some 3 \<noteq> Some (max (0::int) 0)"
  by (simp add: put_admin_user_def admin_updates_def set_trials_to_def refreshUser_def
      select_user_def store_of_def single_def student_def sub_expired_def update_user_def
      num_or_def FREE_TRIALS_def)

theorem set_trials_total_witness:
  "refreshUser (store_of [student]) 0 ''u1'' = (store_of [student], Some student) \<and>
   action (set_trials_to (Some (- 4))) = ''set_trials'' \<and>
   select_user (fst (put_admin_user (store_of [student]) 0 ''u1'' (set_trials_to (Some (- 4))))) ''u1''
     = Some (student\<lparr>trials_total := Some 0, trials_used := Some 0\<rparr>)"
proof -
  have a: "action (set_trials_to (Some (- 4))) = ''set_trials''"
    and t: "trialsTotal (set_trials_to (Some (- 4))) = Some (- 4)"
    by (simp_all add: set_trials_to_def)
  have q: "(0::int) = (case trialsTotal (set_trials_to (Some (- 4))) of None \<Rightarrow> 3
                       | Some n \<Rightarrow> if n = 0 then 3 else max n 0)"
    by (simp add: t)
  show ?thesis
    using set_trials_total [OF student_refresh a q] student_refresh a by blast
qed

section \<open>Payment verification\<close>

lemma select_payment_update:
  assumes "\<And>row. p_id (f row) = p_id row"
  shows "select_payment (update_payment pid f s) k
         = map_option (\<lambda>p. if p_id p = pid then f p else p) (select_payment s k)"
  unfolding select_payment_def update_payment_def
  by (simp add: single_filter_map assms)

lemma select_payment_id: "select_payment s k = Some p \<Longrightarrow> p_id p = k"
  unfolding select_payment_def by (drule single_filter_Some) simp

lemma mark_verified_id [simp]: "p_id (mark_verified now notes nt pay row) = p_id row"
  by (simp add: mark_verified_def)

lemma select_payment_frame [simp]:
  "select_payment (update_user s uid f) k = select_payment s k"
  "select_payment (update_user_by_email s em f) k = select_payment s k"
  by (simp_all add: select_payment_def update_user_def update_user_by_email_def)

lemma payment_users_frame [simp]:
  "select_user (update_payment pid f s) k = select_user s k"
  "select_user_by_email (update_payment pid f s) em = select_user_by_email s em"
  "users (update_payment pid f s) = users s"
  by (simp_all add: select_user_def select_user_by_email_def update_payment_def)

lemma select_by_email_update:
  assumes "\<And>row. u_email (f row) = u_email row"
  shows "select_user_by_email (update_user s uid f) em
           = map_option (\<lambda>u. if u_id u = uid then f u else u) (select_user_by_email s em)"
    and "select_user_by_email (update_user_by_email s em' f) em
           = map_option (\<lambda>u. if u_email u = em' then f u else u) (select_user_by_email s em)"
  unfolding select_user_by_email_def update_user_def update_user_by_email_def
  by (simp_all add: single_filter_map assms)

lemma select_by_email_email: "select_user_by_email s em = Some u \<Longrightarrow> u_email u = em"
  unfolding select_user_by_email_def by (drule single_filter_Some) simp

lemma grant_monthly_30_keeps [simp]:
  "u_id (grant_monthly_30 now row) = u_id row"
  "u_email (grant_monthly_30 now row) = u_email row"
  by (simp_all add: grant_monthly_30_def)

lemma trials_granted_count: "max 1 (num_or n 1) = (case n of None \<Rightarrow> 1 | Some k \<Rightarrow> max k 1)"
  by (simp add: num_or_def max_def split: option.splits)

lemma nonempty_Some: "t \<noteq> [] \<Longrightarrow> nonempty (Some t) = Some t"
  by (simp add: nonempty_def)

text \<open>
  C7 (amended). Verifying a payment that is already verified fails with
  \<open>AlreadyVerified\<close> and changes nothing. Otherwise the payment row becomes verified,
  with \<open>trials_granted\<close> null for plan 99 and the granted count \<open>max(n, 1)\<close> otherwise
  (1 when no number is given), and the target user, found by the payment's user id or
  else by its email, becomes a monthly subscriber until 30 days from now for plan 99,
  and otherwise has \<open>trials_total\<close> set to the effective quota read from the store (the
  stored total, or 3 when that is null or 0) plus the granted count.
\<close>

theorem verify_payment:
  assumes "select_payment s pid = Some pay"
    and "g = (case trialsToGrant of None \<Rightarrow> 1 | Some n \<Rightarrow> max n 1)"
    and "s' = fst (post_admin_payment_verify s now pid notes trialsToGrant)"
  shows "(status pay = ''verified'' \<longrightarrow>
            post_admin_payment_verify s now pid notes trialsToGrant = (s, Inl AlreadyVerified)) \<and>
         (status pay \<noteq> ''verified'' \<longrightarrow>
            (\<exists>m. snd (post_admin_payment_verify s now pid notes trialsToGrant) = Inr m) \<and>
            select_payment s' pid =
              Some (pay\<lparr>status := ''verified'', verified_at := Some now,
                        verified_by := Some ADMIN_EMAIL, p_notes := nonempty notes,
                        trials_granted := (if plan pay = ''99'' then None else Some g)\<rparr>) \<and>
            (\<forall>uid u. nonempty (user_id pay) = Some uid \<and> select_user s uid = Some u \<longrightarrow>
               select_user s' uid =
                 Some (if plan pay = ''99''
                       then u\<lparr>subscribed := True, sub_plan := Some ''monthly'',
                              sub_expires := Some (now + 30 * DAY_MS)\<rparr>
                       else u\<lparr>trials_total :=
                              Some (num_or (trials_total u) FREE_TRIALS + g)\<rparr>)) \<and>
            (\<forall>em u. nonempty (user_id pay) = None \<and> nonempty (email pay) = Some em \<and>
                    select_user_by_email s em = Some u \<longrightarrow>
               select_user_by_email s' em =
                 Some (if plan pay = ''99''
                       then u\<lparr>subscribed := True, sub_plan := Some ''monthly'',
                              sub_expires := Some (now + 30 * DAY_MS)\<rparr>
                       else u\<lparr>trials_total :=
                              Some (num_or (trials_total u) FREE_TRIALS + g)\<rparr>)))"
proof (intro conjI impI allI)
  assume "status pay = ''verified''"
  then show "post_admin_payment_verify s now pid notes trialsToGrant = (s, Inl AlreadyVerified)"
    by (simp add: post_admin_payment_verify_def assms(1))
next
  assume nv: "status pay \<noteq> ''verified''"
  have pid: "p_id pay = pid"
    using assms(1) by (rule select_payment_id)
  have g: "max 1 (num_or trialsToGrant 1) = g"
    by (simp add: assms(2) trials_granted_count)
  let ?s1 = "update_payment pid (mark_verified now notes g pay) s"
  have p1: "select_payment ?s1 pid = Some (mark_verified now notes g pay pay)"
    by (simp add: select_payment_update assms(1) pid)
  show "\<exists>m. snd (post_admin_payment_verify s now pid notes trialsToGrant) = Inr m"
    using nv
    by (simp add: post_admin_payment_verify_def assms(1) Let_def split: option.splits prod.splits)
  have pays: "payments s' = payments ?s1"
    using nv unfolding assms(3)
    by (simp add: post_admin_payment_verify_def assms(1) Let_def g pid update_user_def
        update_user_by_email_def split: option.splits prod.splits)
  have "select_payment s' pid = select_payment ?s1 pid"
    by (simp add: select_payment_def pays)
  then show "select_payment s' pid =
              Some (pay\<lparr>status := ''verified'', verified_at := Some now,
                        verified_by := Some ADMIN_EMAIL, p_notes := nonempty notes,
                        trials_granted := (if plan pay = ''99'' then None else Some g)\<rparr>)"
    by (simp add: p1 mark_verified_def)
  {
    fix uid u
    assume a: "nonempty (user_id pay) = Some uid \<and> select_user s uid = Some u"
    then have s': "s' = (if plan pay = ''99'' then update_user ?s1 uid (grant_monthly_30 now)
                   else update_user ?s1 uid
                     (\<lambda>row. row\<lparr>trials_total := Some (num_or (trials_total u) FREE_TRIALS + g)\<rparr>))"
      using nv unfolding assms(3)
      by (simp add: post_admin_payment_verify_def assms(1) Let_def g pid)
    show "select_user s' uid =
                 Some (if plan pay = ''99''
                       then u\<lparr>subscribed := True, sub_plan := Some ''monthly'',
                              sub_expires := Some (now + 30 * DAY_MS)\<rparr>
                       else u\<lparr>trials_total :=
                              Some (num_or (trials_total u) FREE_TRIALS + g)\<rparr>)"
      using a by (simp add: s' select_user_update grant_monthly_30_def)
  }
  {
    fix em u
    assume a: "nonempty (user_id pay) = None \<and> nonempty (email pay) = Some em \<and>
                    select_user_by_email s em = Some u"
    then have em: "u_email u = em"
      by (auto dest: select_by_email_email)
    let ?f = "\<lambda>row. row\<lparr>trials_total := Some (num_or (trials_total u) FREE_TRIALS + g)\<rparr>"
    from a have s': "s' = (if plan pay = ''99''
                   then update_user_by_email ?s1 em (grant_monthly_30 now)
                   else (case nonempty (Some (u_id u)) of
                           Some i \<Rightarrow> update_user ?s1 i ?f
                         | None \<Rightarrow> update_user_by_email ?s1 em ?f))"
      using nv unfolding assms(3)
      by (auto simp: post_admin_payment_verify_def assms(1) Let_def g pid
          split: option.splits)
    have i: "nonempty (Some (u_id u)) = Some i \<Longrightarrow> i = u_id u" for i
      by (simp add: nonempty_def split: if_splits)
    show "select_user_by_email s' em =
                 Some (if plan pay = ''99''
                       then u\<lparr>subscribed := True, sub_plan := Some ''monthly'',
                              sub_expires := Some (now + 30 * DAY_MS)\<rparr>
                       else u\<lparr>trials_total :=
                              Some (num_or (trials_total u) FREE_TRIALS + g)\<rparr>)"
      using a em
      by (auto simp: s' select_by_email_update grant_monthly_30_def dest: i
          split: option.splits)
  }
qed

lemmas verify_defs = post_admin_payment_verify_def select_payment_def select_user_def
  select_user_by_email_def single_def update_payment_def update_user_def
  update_user_by_email_def mark_verified_def grant_monthly_30_def nonempty_def num_or_def
  FREE_TRIALS_def

text \<open>
  C7 as stated fails for a user whose stored \<open>trials_total\<close> is 0: verifying a payment
  of plan 10 with 5 trials takes the total from 0 to 8, not to 5.
\<close>

theorem verify_trials_counterexample:
  "select_user (till zero_quota pay10) ''u1'' = Some zero_quota \<and>
   trials_total zero_quota = Some 0 \<and>
   select_user (fst (post_admin_payment_verify (till zero_quota pay10) 0 ''p1'' None (Some 5)))
       ''u1''
     = Some (zero_quota\<lparr>trials_total := Some 8\<rparr>) \<and>
   (0::int) + max 5 1 \<noteq> 8"
  by (simp add: verify_defs till_def pay10_def zero_quota_def student_def Let_def)

theorem verify_payment_witness:
  "select_payment (till student pay10) ''p1'' = Some pay10 \<and> status pay10 \<noteq> ''verified'' \<and>
   nonempty (user_id pay10) = Some ''u1'' \<and>
   select_user (till student pay10) ''u1'' = Some student \<and>
   select_user (fst (post_admin_payment_verify (till student pay10) 0 ''p1'' None (Some 5))) ''u1''
     = Some (student\<lparr>trials_total := Some 8\<rparr>) \<and>
   map_option trials_granted
     (select_payment (fst (post_admin_payment_verify (till student pay10) 0 ''p1'' None (Some 5)))
        ''p1'') = Some (Some 5) \<and>
   select_payment (till student pay99) ''p1'' = Some pay99 \<and> status pay99 \<noteq> ''verified'' \<and>
   plan pay99 = ''99'' \<and>
   select_user (fst (post_admin_payment_verify (till student pay99) 0 ''p1'' None (Some 5))) ''u1''
     = Some (student\<lparr>subscribed := True, sub_plan := Some ''monthly'',
                     sub_expires := Some (30 * DAY_MS)\<rparr>) \<and>
   map_option trials_granted
     (select_payment (fst (post_admin_payment_verify (till student pay99) 0 ''p1'' None (Some 5)))
        ''p1'') = Some None \<and>
   select_payment (till student pay_done) ''p1'' = Some pay_done \<and>
   status pay_done = ''verified'' \<and>
   post_admin_payment_verify (till student pay_done) 0 ''p1'' None (Some 5)
     = (till student pay_done, Inl AlreadyVerified) \<and>
   nonempty (user_id pay_by_email) = None \<and>
   nonempty (email pay_by_email) = Some ''asha@example.com'' \<and>
   select_user_by_email
       (fst (post_admin_payment_verify (till student pay_by_email) 0 ''p1'' None None))
       ''asha@example.com''
     = Some (student\<lparr>trials_total := Some 4\<rparr>)"
proof -
  have g: "(5::int) = (case Some 5 of None \<Rightarrow> 1 | Some n \<Rightarrow> max n 1)"
    "(1::int) = (case None of None \<Rightarrow> 1 | Some n \<Rightarrow> max n 1)"
    by simp_all
  have ids: "p_id pay10 = ''p1''" "p_id pay99 = ''p1''" "p_id pay_done = ''p1''"
    "p_id pay_by_email = ''p1''"
    by (simp_all add: pay10_def pay99_def pay_done_def pay_by_email_def)
  have h10: "select_payment (till student pay10) ''p1'' = Some pay10"
    and h99: "select_payment (till student pay99) ''p1'' = Some pay99"
    and hd: "select_payment (till student pay_done) ''p1'' = Some pay_done"
    and he: "select_payment (till student pay_by_email) ''p1'' = Some pay_by_email"
    using till_rows(1)[of pay10] till_rows(1)[of pay99] till_rows(1)[of pay_done]
      till_rows(1)[of pay_by_email] by (simp_all add: ids)
  have k: "status pay10 \<noteq> ''verified''" "nonempty (user_id pay10) = Some ''u1''"
    "plan pay10 \<noteq> ''99''" "status pay99 \<noteq> ''verified''" "plan pay99 = ''99''"
    "nonempty (user_id pay99) = Some ''u1''" "status pay_done = ''verified''"
    "status pay_by_email \<noteq> ''verified''" "plan pay_by_email \<noteq> ''99''"
    "nonempty (user_id pay_by_email) = None"
    "nonempty (email pay_by_email) = Some ''asha@example.com''"
    "num_or (trials_total student) FREE_TRIALS = 3"
    by (simp_all add: pay10_def pay99_def pay_done_def pay_by_email_def nonempty_def
        student_def num_or_def)
  show ?thesis
    using verify_payment [OF h10 g(1) refl, of 0 None]
      verify_payment [OF h99 g(1) refl, of 0 None]
      verify_payment [OF hd g(1) refl, of 0 None]
      verify_payment [OF he g(2) refl, of 0 None]
      h10 h99 hd he k till_rows(2,3)
    by simp
qed

section \<open>Coupon redemption in the second backend revision\<close>

lemma use_coupon_v2_keeps [simp]:
  "code (use_coupon_v2 cp row) = code row" "c_id (use_coupon_v2 cp row) = c_id row"
  by (simp_all add: use_coupon_v2_def)

lemma select_coupon_ilike_update:
  assumes "\<And>row. code (f row) = code row"
  shows "select_coupon_ilike (update_coupon cid f s) pat
         = map_option (\<lambda>cp. if c_id cp = cid then f cp else cp) (select_coupon_ilike s pat)"
  unfolding select_coupon_ilike_def update_coupon_def
  by (simp add: single_filter_map assms)

text \<open>
  C10. In the second backend revision, a redemption request without a user id for a coupon
  that is found, active and not exhausted is answered with success; it increments the
  coupon's uses (clearing the flag when the count reaches \<open>max_uses\<close>), changes no user
  and inserts no redemption row.
\<close>

theorem anonymous_redeem_v2:
  assumes "c \<noteq> []" and "nonempty userId_in = None"
    and "select_coupon_ilike s (js_trim c) = Some cp"
    and "active cp" and "uses cp < to_num (max_uses cp)"
    and "s' = fst (post_coupons_redeem_v2 s now (Some c) userId_in)"
  shows "snd (post_coupons_redeem_v2 s now (Some c) userId_in) = Inr (plan_grant cp) \<and>
         s' = update_coupon (c_id cp) (use_coupon_v2 cp) s \<and>
         select_coupon_ilike s' (js_trim c)
           = Some (cp\<lparr>uses := uses cp + 1,
                      active := \<not> (uses cp + 1 \<ge> to_num (max_uses cp))\<rparr>) \<and>
         users s' = users s \<and>
         coupon_redemptions s' = coupon_redemptions s"
proof -
  have r: "post_coupons_redeem_v2 s now (Some c) userId_in
           = (update_coupon (c_id cp) (use_coupon_v2 cp) s, Inr (plan_grant cp))"
    using assms(1-5) by (simp add: post_coupons_redeem_v2_def nonempty_Some)
  have "select_coupon_ilike (update_coupon (c_id cp) (use_coupon_v2 cp) s) (js_trim c)
          = Some (use_coupon_v2 cp cp)"
    by (simp add: select_coupon_ilike_update assms(3))
  moreover have "use_coupon_v2 cp cp
      = cp\<lparr>uses := uses cp + 1, active := \<not> (uses cp + 1 \<ge> to_num (max_uses cp))\<rparr>"
    using assms(4) by (simp add: use_coupon_v2_def)
  ultimately show ?thesis
    by (simp add: assms(6) r update_coupon_def)
qed

lemma pattern_M: "js_trim ''exam2026'' = ''exam2026'' \<and> like_match ''exam2026'' ''EXAM2026''"
  by code_simp

lemma coupon_M_code: "code coupon_M = ''EXAM2026''"
  by (simp add: coupon_M_def)

theorem anonymous_redeem_v2_witness:
  "''exam2026'' \<noteq> [] \<and> nonempty None = None \<and>
   select_coupon_ilike shop_v2 (js_trim ''exam2026'') = Some coupon_M \<and> active coupon_M \<and>
   uses coupon_M < to_num (max_uses coupon_M) \<and>
   post_coupons_redeem_v2 shop_v2 0 (Some ''exam2026'') None
     = (shop_v2\<lparr>coupons := [coupon_M\<lparr>uses := 1, active := False\<rparr>]\<rparr>, Inr (Some ''monthly'')) \<and>
   users shop_v2 = [student] \<and> coupon_redemptions shop_v2 = []"
proof -
  have h: "''exam2026'' \<noteq> []" "nonempty None = None"
    "select_coupon_ilike shop_v2 (js_trim ''exam2026'') = Some coupon_M" "active coupon_M"
    "uses coupon_M < to_num (max_uses coupon_M)"
    using pattern_M
    by (simp_all add: select_coupon_ilike_def shop_v2_def single_def coupon_M_code)
       (simp_all add: coupon_M_def nonempty_def to_num_def)
  have e: "update_coupon (c_id coupon_M) (use_coupon_v2 coupon_M) shop_v2
             = shop_v2\<lparr>coupons := [coupon_M\<lparr>uses := 1, active := False\<rparr>]\<rparr>"
    "plan_grant coupon_M = Some ''monthly''" "users shop_v2 = [student]"
    "coupon_redemptions shop_v2 = []"
    by (simp_all add: update_coupon_def use_coupon_v2_def shop_v2_def coupon_M_def to_num_def)
  show ?thesis
    using anonymous_redeem_v2 [OF h refl, of 0] h e
    by (simp add: prod_eq_iff)
qed

end
